theory Spec2Isabelle
  imports Main
begin

section \<open>SdCardUtils: a shallow embedding of sdcard\_utils.py\<close>

text \<open>
  The class \<open>SdCardUtils\<close> wraps the host's filesystem module \<open>uos\<close>, the built-in file
  objects and the \<open>json\<close> module. None of the three is part of the repository, so the
  embedding takes them as one parameter, a record of functions (\<open>host\<close>), and every method
  of the class is a function of that record. Each host call either returns or raises; a
  raise is the value \<open>Inl e\<close>. A concrete filesystem (\<open>vfs\<close>, below) instantiates the record
  where a property is about what a sequence of calls leaves on the card.
\<close>

subsection \<open>Exceptions and strings\<close>

text \<open>
  The source distinguishes \<open>OSError\<close> (whose \<open>errno\<close> it reads in \<open>cd\<close>) from every other
  \<open>Exception\<close>. Both carry the text that \<open>f'{e}'\<close> prints.
\<close>

datatype exn = OSError int string | OtherExc string

fun exn_str :: "exn \<Rightarrow> string" where
  "exn_str (OSError n t) = t"
| "exn_str (OtherExc t) = t"

text \<open>\<open>s.startswith(p)\<close> and \<open>p in s\<close> on strings.\<close>

fun startswith :: "string \<Rightarrow> string \<Rightarrow> bool" where
  "startswith s [] = True"
| "startswith [] (p # ps) = False"
| "startswith (c # s) (p # ps) = (c = p \<and> startswith s ps)"

fun contains :: "string \<Rightarrow> string \<Rightarrow> bool" where
  "contains p [] = (p = [])"
| "contains p (c # s) = (startswith (c # s) p \<or> contains p s)"

text \<open>\<open>s.endswith('/')\<close>.\<close>

definition endswith_slash :: "string \<Rightarrow> bool" where
  "endswith_slash s = (s \<noteq> [] \<and> last s = CHR ''/'')"

text \<open>\<open>s.rfind(c)\<close>: the highest index of \<open>c\<close> in \<open>s\<close>, or \<open>-1\<close>.\<close>

fun rfind_aux :: "char \<Rightarrow> string \<Rightarrow> int \<Rightarrow> int \<Rightarrow> int" where
  "rfind_aux c [] i acc = acc"
| "rfind_aux c (x # xs) i acc = rfind_aux c xs (i + 1) (if x = c then i else acc)"

definition rfind :: "string \<Rightarrow> char \<Rightarrow> int" where
  "rfind s c = rfind_aux c s 0 (- 1)"

subsection \<open>The host: uos, file objects, json\<close>

text \<open>
  \<open>'fs\<close> is the state of the process-wide filesystem, the current working directory
  included. A file object is named by the string token that \<open>f_open\<close> returns. \<open>f_read\<close>
  returns the whole content of a file opened for reading; \<open>f_close\<close> and \<open>uos_getcwd\<close>
  are taken to return always. \<open>'j\<close> is the type of the values the json module
  serialises and parses.
\<close>

record ('fs, 'j) host =
  uos_getcwd :: "'fs \<Rightarrow> string"
  uos_chdir :: "string \<Rightarrow> 'fs \<Rightarrow> exn + 'fs"
  uos_mkdir :: "string \<Rightarrow> 'fs \<Rightarrow> exn + 'fs"
  uos_rmdir :: "string \<Rightarrow> 'fs \<Rightarrow> exn + 'fs"
  uos_listdir :: "string \<Rightarrow> 'fs \<Rightarrow> exn + string list"
  uos_remove :: "string \<Rightarrow> 'fs \<Rightarrow> exn + 'fs"
  uos_rename :: "string \<Rightarrow> string \<Rightarrow> 'fs \<Rightarrow> exn + 'fs"
  f_open :: "string \<Rightarrow> char \<Rightarrow> 'fs \<Rightarrow> exn + (string \<times> 'fs)"
  f_write :: "string \<Rightarrow> string \<Rightarrow> 'fs \<Rightarrow> exn + 'fs"
  f_read :: "string \<Rightarrow> 'fs \<Rightarrow> exn + string"
  f_close :: "string \<Rightarrow> 'fs \<Rightarrow> 'fs"
  json_dumps :: "'j \<Rightarrow> exn + string"
  json_loads :: "string \<Rightarrow> exn + 'j"

subsection \<open>The object and the outcome of a method\<close>

text \<open>
  The only field the methods use after construction is \<open>_error\<close>; the filesystem is
  global state that every method reads and writes, so it travels with the object.
  A method returns \<open>(Inr v, s')\<close> when it returns \<open>v\<close> and \<open>(Inl e, s')\<close> when the
  exception \<open>e\<close> leaves it; \<open>s'\<close> is the state at that moment in both cases.
\<close>

record 'fs sd =
  error :: string
  fs :: "'fs"

type_synonym ('fs, 'a) outcome = "(exn + 'a) \<times> 'fs sd"

definition andthen ::
  "('fs, 'a) outcome \<Rightarrow> ('a \<Rightarrow> 'fs sd \<Rightarrow> ('fs, 'b) outcome) \<Rightarrow> ('fs, 'b) outcome" where
  "andthen m k = (case m of (Inl e, s) \<Rightarrow> (Inl e, s) | (Inr a, s) \<Rightarrow> k a s)"

subsection \<open>Error field\<close>

definition clean_error :: "'fs sd \<Rightarrow> 'fs sd" where
  "clean_error s = s\<lparr>error := ''''\<rparr>"

definition get_error :: "'fs sd \<Rightarrow> string \<times> 'fs sd" where
  "get_error s =
     (let s1 = (if contains ''OSError'' (error s) then s\<lparr>error := ''''\<rparr> else s)
      in (error s1, s1))"

subsection \<open>Existence checks\<close>

text \<open>
  \<open>dir_exists\<close> returns \<open>True\<close>, \<open>False\<close>, or (second handler, which has no
  \<open>return\<close>) \<open>None\<close>: the result is a \<open>bool option\<close>, \<open>None\<close> being Python's \<open>None\<close>.
\<close>

definition dir_exists :: "('fs, 'j) host \<Rightarrow> string \<Rightarrow> 'fs sd \<Rightarrow> ('fs, bool option) outcome" where
  \<open>dir_exists E path s0 =
     (let s = clean_error s0 in
      case uos_chdir E path (fs s) of
        Inr g \<Rightarrow> (Inr (Some True), s\<lparr>fs := g\<rparr>)
      | Inl (OSError n t) \<Rightarrow> (Inr (Some False), s\<lparr>error := ''Error: <class 'OSError'>''\<rparr>)
      | Inl (OtherExc t) \<Rightarrow> (Inr None, s\<lparr>error := ''Unknow error: '' @ t\<rparr>))\<close>

text \<open>Python's truth value of what \<open>dir_exists\<close> returns.\<close>

definition truthy :: "bool option \<Rightarrow> bool" where
  "truthy r = (r = Some True)"

definition file_exists ::
  "('fs, 'j) host \<Rightarrow> string \<Rightarrow> string \<Rightarrow> 'fs sd \<Rightarrow> ('fs, bool) outcome" where
  "file_exists E file_name path s0 =
     andthen (dir_exists E path (clean_error s0)) (\<lambda>r s.
       if \<not> truthy r then (Inr False, s)
       else case uos_listdir E path (fs s) of
              Inl e \<Rightarrow> (Inl e, s)
            | Inr l \<Rightarrow> if file_name \<in> set l then (Inr True, s)
                       else (Inr False, s\<lparr>error := ''File not exists''\<rparr>))"

definition exists_path :: "('fs, 'j) host \<Rightarrow> string \<Rightarrow> 'fs sd \<Rightarrow> ('fs, bool) outcome" where
  "exists_path E file_path s0 =
     (let s = clean_error s0; find = rfind file_path (CHR ''/'') in
      if find = - 1 then (Inr False, s\<lparr>error := ''file_path is not a path''\<rparr>)
      else
        let path = take (nat find) file_path;
            file_name = drop (nat (find + 1)) file_path
        in andthen (dir_exists E path s) (\<lambda>r s1.
             if \<not> truthy r then (Inr False, s1)
             else file_exists E file_name path s1))"

subsection \<open>Directory operations\<close>

definition mkdir :: "('fs, 'j) host \<Rightarrow> string \<Rightarrow> 'fs sd \<Rightarrow> ('fs, bool) outcome" where
  \<open>mkdir E dir_name s0 =
     (let s = clean_error s0 in
      if dir_name = [] then (Inr False, s\<lparr>error := ''dir_name is empty''\<rparr>)
      else andthen (dir_exists E dir_name s) (\<lambda>r s1.
        if truthy r then (Inr False, s1\<lparr>error := dir_name @ '' already exists''\<rparr>)
        else case uos_mkdir E dir_name (fs s1) of
               Inr g \<Rightarrow> (Inr True, s1\<lparr>fs := g\<rparr>)
             | Inl e \<Rightarrow> (Inr False,
                 s1\<lparr>error := ''can't create directory '' @ dir_name @ '' -> '' @ exn_str e\<rparr>)))\<close>

text \<open>
  \<open>cd\<close>: the first \<open>if\<close> may create the directory (the result of \<open>mkdir\<close> is dropped);
  the second probes again and changes directory. Python's \<open>and\<close> does not call
  \<open>dir_exists\<close> when \<open>dir_name\<close> is empty. An \<open>OSError\<close> whose \<open>errno\<close> is not \<open>-2\<close>
  leaves the \<open>try\<close> statement and reaches the last two lines of the method; any other
  exception returns \<open>False\<close> from its handler without touching the error field.
\<close>

definition cd_fail :: "string \<Rightarrow> 'fs sd \<Rightarrow> ('fs, bool) outcome" where
  \<open>cd_fail dir_name s =
     (Inr False,
      s\<lparr>error := ''Something has gone wrong, can't change to directory '' @ dir_name\<rparr>)\<close>

definition cd :: "('fs, 'j) host \<Rightarrow> string \<Rightarrow> bool \<Rightarrow> 'fs sd \<Rightarrow> ('fs, bool) outcome" where
  "cd E dir_name create s0 =
     (let s = clean_error s0 in
      andthen
        (if dir_name \<noteq> [] then
           andthen (dir_exists E dir_name s) (\<lambda>r s1.
             if \<not> truthy r \<and> create
             then andthen (mkdir E dir_name s1) (\<lambda>b s2. (Inr (), s2))
             else (Inr (), s1))
         else (Inr (), s))
        (\<lambda>u s1.
           if dir_name \<noteq> [] then
             andthen (dir_exists E dir_name s1) (\<lambda>r s2.
               if truthy r then
                 (case uos_chdir E dir_name (fs s2) of
                    Inr g \<Rightarrow> (Inr True, s2\<lparr>fs := g\<rparr>)
                  | Inl (OSError n t) \<Rightarrow> if n = - 2 then (Inr True, s2) else cd_fail dir_name s2
                  | Inl (OtherExc t) \<Rightarrow> (Inr False, s2))
               else cd_fail dir_name s2)
           else cd_fail dir_name s1))"

text \<open>\<open>rmdir\<close> is the one method that starts without \<open>_clean_error\<close>.\<close>

definition rmdir :: "('fs, 'j) host \<Rightarrow> string \<Rightarrow> 'fs sd \<Rightarrow> ('fs, bool) outcome" where
  \<open>rmdir E dir_name s =
     (case uos_rmdir E dir_name (fs s) of
        Inr g \<Rightarrow> (Inr True, s\<lparr>fs := g\<rparr>)
      | Inl e \<Rightarrow> (Inr False,
          s\<lparr>error := ''can't delete directory '' @ dir_name @ '' -> '' @ exn_str e\<rparr>))\<close>

text \<open>\<open>dir\<close> is static: it returns what \<open>uos.listdir\<close> returns, or raises what it raises.\<close>

definition dir :: "('fs, 'j) host \<Rightarrow> string \<Rightarrow> 'fs sd \<Rightarrow> ('fs, string list) outcome" where
  "dir E dir_name s =
     (case uos_listdir E dir_name (fs s) of Inl e \<Rightarrow> (Inl e, s) | Inr l \<Rightarrow> (Inr l, s))"

text \<open>
  \<open>is_file\<close>: the \<open>try\<close> body opens and closes the file and returns \<open>True\<close>, or raises;
  the \<open>finally\<close> clause then executes \<open>return False\<close>, which replaces the pending return
  value and discards a pending exception.
\<close>

definition is_file_try :: "('fs, 'j) host \<Rightarrow> string \<Rightarrow> 'fs sd \<Rightarrow> ('fs, bool) outcome" where
  "is_file_try E file_name s =
     (case f_open E file_name (CHR ''r'') (fs s) of
        Inl e \<Rightarrow> (Inl e, s)
      | Inr (h, g) \<Rightarrow> (Inr True, s\<lparr>fs := f_close E h g\<rparr>))"

definition finally_return :: "'b \<Rightarrow> ('fs, 'a) outcome \<Rightarrow> ('fs, 'b) outcome" where
  "finally_return v m = (Inr v, snd m)"

definition is_file :: "('fs, 'j) host \<Rightarrow> string \<Rightarrow> 'fs sd \<Rightarrow> ('fs, bool) outcome" where
  "is_file E file_name s = finally_return False (is_file_try E file_name s)"

definition is_dir :: "('fs, 'j) host \<Rightarrow> string \<Rightarrow> 'fs sd \<Rightarrow> ('fs, bool) outcome" where
  "is_dir E dir_name s =
     (let actual = uos_getcwd E (fs s) in
      andthen (cd E dir_name False s) (\<lambda>b s1.
        if b then andthen (cd E actual False s1) (\<lambda>b2 s2. (Inr True, s2))
        else (Inr False, s1)))"

subsection \<open>Deleting and renaming\<close>

text \<open>
  The expression \<open>f'{uos.getcwd()}{file_name}' if '/' not in file_name else file_name\<close>,
  which \<open>delete_file\<close>, \<open>rename_file\<close>, \<open>_read\<close> and \<open>_update\<close> all start with.
\<close>

definition with_cwd :: "('fs, 'j) host \<Rightarrow> string \<Rightarrow> 'fs sd \<Rightarrow> string" where
  "with_cwd E file_name s =
     (if CHR ''/'' \<notin> set file_name then uos_getcwd E (fs s) @ file_name else file_name)"

definition delete_file :: "('fs, 'j) host \<Rightarrow> string \<Rightarrow> 'fs sd \<Rightarrow> ('fs, bool) outcome" where
  \<open>delete_file E file_name0 s0 =
     (let s = clean_error s0; file_name = with_cwd E file_name0 s in
      andthen (exists_path E file_name s) (\<lambda>b s1.
        if b then
          (case uos_remove E file_name (fs s1) of
             Inr g \<Rightarrow> (Inr True, s1\<lparr>fs := g\<rparr>)
           | Inl e \<Rightarrow> (Inr False,
               s1\<lparr>error := file_name @ '' can't delete -> '' @ exn_str e\<rparr>))
        else (Inr False,
          s1\<lparr>error := ''File '' @ file_name
                 @ '' not exitsts or add path to filename ex; /file.txt''\<rparr>)))\<close>

definition rename_file ::
  "('fs, 'j) host \<Rightarrow> string \<Rightarrow> string \<Rightarrow> 'fs sd \<Rightarrow> ('fs, bool) outcome" where
  \<open>rename_file E file_name0 new_name s0 =
     (let s = clean_error s0; file_name = with_cwd E file_name0 s in
      andthen (exists_path E file_name s) (\<lambda>b s1.
        if \<not> b then (Inr False,
          s1\<lparr>error := file_name @ '' not exists or add path to filename ex; /file.txt''\<rparr>)
        else
          (case uos_rename E file_name new_name (fs s1) of
             Inr g \<Rightarrow> (Inr True, s1\<lparr>fs := g\<rparr>)
           | Inl e \<Rightarrow> (Inr False,
               s1\<lparr>error := ''can't rename '' @ file_name @ '' to '' @ new_name
                      @ '' -> '' @ exn_str e\<rparr>))))\<close>

subsection \<open>Data handed to the writers\<close>

text \<open>
  \<open>data\<close> is dynamically typed in the source. The embedding gives each format the values
  its wrapper documents: a string or a list of strings (or nothing) for a plain file; a
  list of rows (or nothing) for a CSV file, a row being a list of scalar fields or one
  scalar; a json value for a JSON file. The format tag \<open>file_type\<close> and the data travel
  together as one \<open>payload\<close>, so \<open>_create\<close> and \<open>_update\<close> dispatch on its constructor
  where the source compares \<open>file_type\<close> with \<open>'json'\<close> and \<open>'csv'\<close>.
\<close>

datatype field = FStr string | FInt int | FBool bool | FNone

datatype item = Scalar field | Row "field list"

datatype pdata = PNone | PStr string | PLines "string list"

datatype 'j payload = Plain pdata | Csv "item list option" | Json 'j

text \<open>\<open>not data\<close> for a plain payload: \<open>None\<close>, the empty string and the empty list.\<close>

fun pdata_falsy :: "pdata \<Rightarrow> bool" where
  "pdata_falsy PNone = True"
| "pdata_falsy (PStr d) = (d = [])"
| "pdata_falsy (PLines ls) = (ls = [])"

text \<open>\<open>str(x)\<close> on the scalars: decimal digits for an integer.\<close>

function str_of_nat :: "nat \<Rightarrow> string" where
  "str_of_nat n =
     (if n < 10 then [''0123456789'' ! n]
      else str_of_nat (n div 10) @ [''0123456789'' ! (n mod 10)])"
  by pat_completeness auto
termination
  by (relation "measure (\<lambda>n. n)") auto

declare str_of_nat.simps [simp del]

definition str_of_int :: "int \<Rightarrow> string" where
  "str_of_int i = (if i < 0 then CHR ''-'' # str_of_nat (nat (- i)) else str_of_nat (nat i))"

fun py_str :: "field \<Rightarrow> string" where
  "py_str (FStr t) = t"
| "py_str (FInt i) = str_of_int i"
| "py_str (FBool b) = (if b then ''True'' else ''False'')"
| "py_str FNone = ''None''"

text \<open>\<open>separator.join(parts)\<close>.\<close>

fun join :: "string \<Rightarrow> string list \<Rightarrow> string" where
  "join sep [] = []"
| "join sep [x] = x"
| "join sep (x # y # ys) = x @ sep @ join sep (y # ys)"

definition priv_str_join :: "field list \<Rightarrow> string \<Rightarrow> string" where
  "priv_str_join data separator = join separator (map py_str data)"

subsection \<open>Writers\<close>

text \<open>
  \<open>write_all\<close> is a run of \<open>f.write\<close> calls (\<open>f.writelines\<close> is one per element): it
  stops at the first one that raises. \<open>with_open\<close> is \<open>with open(path, method) as f\<close>:
  the file is closed whether or not the body raises. Both return the exception that is
  pending, if any, and the filesystem.
\<close>

fun write_all :: "('fs, 'j) host \<Rightarrow> string \<Rightarrow> string list \<Rightarrow> 'fs \<Rightarrow> exn option \<times> 'fs" where
  "write_all E h [] g = (None, g)"
| "write_all E h (x # xs) g =
     (case f_write E h x g of Inl e \<Rightarrow> (Some e, g) | Inr g1 \<Rightarrow> write_all E h xs g1)"

definition with_open ::
  "('fs, 'j) host \<Rightarrow> string \<Rightarrow> char \<Rightarrow> (string \<Rightarrow> 'fs \<Rightarrow> exn option \<times> 'fs) \<Rightarrow> 'fs
     \<Rightarrow> exn option \<times> 'fs" where
  "with_open E path method body g =
     (case f_open E path method g of
        Inl e \<Rightarrow> (Some e, g)
      | Inr (h, g1) \<Rightarrow> (case body h g1 of (r, g2) \<Rightarrow> (r, f_close E h g2)))"

text \<open>
  Each writer wraps its whole body in \<open>try\<close>/\<open>except Exception\<close>: it returns \<open>True\<close>, or
  records a message and returns \<open>False\<close>; no exception leaves it.
\<close>

definition written :: "string \<Rightarrow> 'fs sd \<Rightarrow> exn option \<times> 'fs \<Rightarrow> ('fs, bool) outcome" where
  "written msg s r =
     (case r of
        (None, g) \<Rightarrow> (Inr True, s\<lparr>fs := g\<rparr>)
      | (Some e, g) \<Rightarrow> (Inr False, s\<lparr>error := msg @ exn_str e, fs := g\<rparr>))"

definition priv_write_data ::
  "('fs, 'j) host \<Rightarrow> pdata \<Rightarrow> string \<Rightarrow> string \<Rightarrow> char \<Rightarrow> 'fs sd \<Rightarrow> ('fs, bool) outcome" where
  "priv_write_data E data file_name dir_name method s =
     written (file_name @ '' File write error -> '') s
       (if pdata_falsy data
        then with_open E (dir_name @ file_name) method (\<lambda>h g. (None, g)) (fs s)
        else with_open E (dir_name @ file_name) method
               (\<lambda>h. case data of
                       PLines ls \<Rightarrow> write_all E h ls
                     | PStr d \<Rightarrow> write_all E h [d]
                     | PNone \<Rightarrow> write_all E h [])
               (fs s))"

text \<open>
  \<open>_write_csv\<close>: \<open>for item in data\<close> raises a \<open>TypeError\<close> when \<open>data\<close> is \<open>None\<close> (the
  default of \<open>create_csv\<close>), after the file has been opened. \<open>csv_item\<close> is the text of
  \<open>item\<close> after the \<open>isinstance\<close> test (a list is joined, anything else is formatted as
  it is), \<open>csv_line\<close> the string \<open>f'{item}{newline}'\<close> that is written. The two \<open>print\<close>
  calls are left out.
\<close>

definition csv_item :: "string \<Rightarrow> item \<Rightarrow> string" where
  "csv_item separator it =
     (case it of Row cells \<Rightarrow> priv_str_join cells separator | Scalar x \<Rightarrow> py_str x)"

definition csv_line :: "string \<Rightarrow> string \<Rightarrow> item \<Rightarrow> string" where
  "csv_line separator newline it = csv_item separator it @ newline"

definition priv_write_csv ::
  "('fs, 'j) host \<Rightarrow> item list option \<Rightarrow> string \<Rightarrow> string \<Rightarrow> char \<Rightarrow> string \<Rightarrow> string
     \<Rightarrow> 'fs sd \<Rightarrow> ('fs, bool) outcome" where
  \<open>priv_write_csv E data file_name dir_name method separator newline s =
     written (file_name @ '' CSV File write error -> '') s
       (with_open E (dir_name @ file_name) method
          (\<lambda>h g. case data of
                    None \<Rightarrow> (Some (OtherExc (CHR 0x27 # ''NoneType'' @ CHR 0x27 # '' object isn't iterable'')), g)
                  | Some items \<Rightarrow> write_all E h (map (csv_line separator newline) items) g)
          (fs s))\<close>

definition priv_write_json ::
  "('fs, 'j) host \<Rightarrow> 'j \<Rightarrow> string \<Rightarrow> string \<Rightarrow> char \<Rightarrow> 'fs sd \<Rightarrow> ('fs, bool) outcome" where
  "priv_write_json E data file_name dir_name method s =
     written (file_name @ '' File write (json) error -> '') s
       (with_open E (dir_name @ file_name) method
          (\<lambda>h g. case json_dumps E data of
                    Inl e \<Rightarrow> (Some e, g)
                  | Inr t \<Rightarrow> write_all E h [t] g)
          (fs s))"

text \<open>The three-way dispatch of \<open>_create\<close> and \<open>_update\<close>, with the defaults of the source.\<close>

definition write_payload ::
  "('fs, 'j) host \<Rightarrow> 'j payload \<Rightarrow> string \<Rightarrow> string \<Rightarrow> char \<Rightarrow> 'fs sd \<Rightarrow> ('fs, bool) outcome" where
  "write_payload E data file_name dir_name method s =
     (case data of
        Json d \<Rightarrow> priv_write_json E d file_name dir_name method s
      | Csv d \<Rightarrow> priv_write_csv E d file_name dir_name method '';'' [CHR 0x0A] s
      | Plain d \<Rightarrow> priv_write_data E d file_name dir_name method s)"

subsection \<open>Creating and updating\<close>

text \<open>
  \<open>_create\<close>. The guard is the source's
  \<open>dir_name != '/' and self.dir_exists(dir_name) and not force\<close>: \<open>dir_exists\<close> is not
  called for the root. With \<open>force\<close>, \<open>uos.mkdir\<close> is called outside any \<open>try\<close>. The
  writer's result is dropped; the handler of \<open>_create\<close> itself is kept although no
  writer raises.
\<close>

definition priv_create ::
  "('fs, 'j) host \<Rightarrow> string \<Rightarrow> string \<Rightarrow> 'j payload \<Rightarrow> bool \<Rightarrow> 'fs sd \<Rightarrow> ('fs, bool) outcome" where
  \<open>priv_create E file_name dir_name0 data force s0 =
     (let s = clean_error s0 in
      if file_name = [] then (Inr False, s\<lparr>error := ''file_name is empty''\<rparr>)
      else
        let dir_name = (if dir_name0 \<noteq> [] \<and> dir_name0 \<noteq> ''/'' then dir_name0
                        else uos_getcwd E (fs s))
        in andthen
             (if dir_name \<noteq> ''/''
              then andthen (dir_exists E dir_name s) (\<lambda>r s1. (Inr (truthy r \<and> \<not> force), s1))
              else (Inr False, s))
             (\<lambda>guard s1.
                if guard then (Inr False,
                  s1\<lparr>error := ''"'' @ dir_name @ ''" not exists, use forde=True to force creation''\<rparr>)
                else
                  andthen
                    (if force then
                       (case uos_mkdir E dir_name (fs s1) of
                          Inl e \<Rightarrow> (Inl e, s1)
                        | Inr g \<Rightarrow> (Inr (), s1\<lparr>fs := g\<rparr>))
                     else (Inr (), s1))
                    (\<lambda>u s2.
                       let d1 = dir_name @ (if endswith_slash dir_name then [] else ''/'');
                           d2 = (if d1 \<noteq> ''/'' then d1 else [])
                       in case write_payload E data file_name d2 (CHR ''w'') s2 of
                            (Inr b, s3) \<Rightarrow> (Inr True, s3)
                          | (Inl e, s3) \<Rightarrow> (Inr False,
                              s3\<lparr>error := ''Error creating file '' @ d2 @ file_name
                                     @ '' -> '' @ exn_str e\<rparr>))))\<close>

definition priv_update ::
  "('fs, 'j) host \<Rightarrow> string \<Rightarrow> 'j payload \<Rightarrow> 'fs sd \<Rightarrow> ('fs, bool) outcome" where
  \<open>priv_update E file_name0 data s0 =
     (let s = clean_error s0; file_name = with_cwd E file_name0 s in
      andthen (exists_path E file_name s) (\<lambda>b s1.
        if b then
          (case write_payload E data file_name [] (CHR ''a'') s1 of
             (Inr b2, s2) \<Rightarrow> (Inr True, s2)
           | (Inl e, s2) \<Rightarrow> (Inr False,
               s2\<lparr>error := file_name @ '' File update error -> '' @ exn_str e\<rparr>))
        else (Inr False,
          s1\<lparr>error := file_name @ '' not exists or add path to filename ex; /file.txt''\<rparr>)))\<close>

subsection \<open>Readers\<close>

text \<open>
  \<open>f.readlines()\<close>: the content cut after each line feed, the line feed kept; a last
  line without one is kept too.
\<close>

fun readlines_aux :: "string \<Rightarrow> string \<Rightarrow> string list" where
  "readlines_aux [] cur = (if cur = [] then [] else [cur])"
| "readlines_aux (c # cs) cur =
     (if c = CHR 0x0A then (cur @ [c]) # readlines_aux cs []
      else readlines_aux cs (cur @ [c]))"

definition readlines :: "string \<Rightarrow> string list" where
  "readlines t = readlines_aux t []"

text \<open>
  \<open>item.replace(newline, '')\<close>: every occurrence of \<open>newline\<close> is removed, scanning from
  the left; an empty \<open>newline\<close> changes nothing.
\<close>

function replace_empty :: "string \<Rightarrow> string \<Rightarrow> string" where
  "replace_empty old s =
     (if old = [] \<or> s = [] then s
      else if startswith s old then replace_empty old (drop (length old) s)
      else hd s # replace_empty old (tl s))"
  by pat_completeness auto
termination
  by (relation "measure (\<lambda>(old, s). length s)") auto

declare replace_empty.simps [simp del]

text \<open>
  \<open>item.split(separator)\<close> for a non-empty separator; with an empty one Python raises
  \<open>ValueError\<close>, which \<open>priv_read_csv\<close> below models.
\<close>

function split_aux :: "string \<Rightarrow> string \<Rightarrow> string \<Rightarrow> string list" where
  "split_aux sep s cur =
     (if s = [] then [cur]
      else if sep \<noteq> [] \<and> startswith s sep then cur # split_aux sep (drop (length sep) s) []
      else split_aux sep (tl s) (cur @ [hd s]))"
  by pat_completeness auto
termination
  by (relation "measure (\<lambda>(sep, s, cur). length s)") auto

declare split_aux.simps [simp del]

definition split :: "string \<Rightarrow> string \<Rightarrow> string list" where
  "split sep s = split_aux sep s []"

datatype 'j rdata = RFalse | RLines "string list" | RRows "string list list" | RJson 'j

text \<open>\<open>with open(file_name, 'r') as f\<close> and the whole content read.\<close>

definition read_text :: "('fs, 'j) host \<Rightarrow> string \<Rightarrow> 'fs \<Rightarrow> (exn + string) \<times> 'fs" where
  "read_text E file_name g =
     (case f_open E file_name (CHR ''r'') g of
        Inl e \<Rightarrow> (Inl e, g)
      | Inr (h, g1) \<Rightarrow> (f_read E h g1, f_close E h g1))"

definition priv_read_file ::
  "('fs, 'j) host \<Rightarrow> string \<Rightarrow> 'fs \<Rightarrow> (exn + 'j rdata) \<times> 'fs" where
  "priv_read_file E file_name g =
     (case read_text E file_name g of
        (Inl e, g1) \<Rightarrow> (Inl e, g1)
      | (Inr t, g1) \<Rightarrow> (Inr (RLines (readlines t)), g1))"

definition priv_read_csv ::
  "('fs, 'j) host \<Rightarrow> string \<Rightarrow> string \<Rightarrow> string \<Rightarrow> bool \<Rightarrow> 'fs \<Rightarrow> (exn + 'j rdata) \<times> 'fs" where
  "priv_read_csv E file_name separator newline row_list g =
     (case read_text E file_name g of
        (Inl e, g1) \<Rightarrow> (Inl e, g1)
      | (Inr t, g1) \<Rightarrow>
          let data = map (replace_empty newline) (readlines t) in
          if row_list then
            (if separator = [] \<and> data \<noteq> [] then (Inl (OtherExc ''empty separator''), g1)
             else (Inr (RRows (map (split separator) data)), g1))
          else (Inr (RLines data), g1))"

definition priv_read_json ::
  "('fs, 'j) host \<Rightarrow> string \<Rightarrow> 'fs \<Rightarrow> (exn + 'j rdata) \<times> 'fs" where
  "priv_read_json E file_name g =
     (case read_text E file_name g of
        (Inl e, g1) \<Rightarrow> (Inl e, g1)
      | (Inr t, g1) \<Rightarrow>
          (case json_loads E t of Inl e \<Rightarrow> (Inl e, g1) | Inr v \<Rightarrow> (Inr (RJson v), g1)))"

definition priv_read ::
  "('fs, 'j) host \<Rightarrow> string \<Rightarrow> string \<Rightarrow> string \<Rightarrow> string \<Rightarrow> bool \<Rightarrow> 'fs sd
     \<Rightarrow> ('fs, 'j rdata) outcome" where
  \<open>priv_read E file_name0 file_type separator newline row_list s0 =
     (let s = clean_error s0; file_name = with_cwd E file_name0 s in
      andthen (exists_path E file_name s) (\<lambda>b s1.
        if \<not> b then (Inr RFalse, s1\<lparr>error := file_name @ '' not exists''\<rparr>)
        else
          (case (if file_type = ''json'' then priv_read_json E file_name (fs s1)
                 else if file_type = ''csv''
                 then priv_read_csv E file_name separator newline row_list (fs s1)
                 else priv_read_file E file_name (fs s1)) of
             (Inr d, g) \<Rightarrow> (Inr d, s1\<lparr>fs := g\<rparr>)
           | (Inl e, g) \<Rightarrow> (Inr RFalse,
               s1\<lparr>error := ''can't read data from '' @ file_name @ ''  -> '' @ exn_str e,
                   fs := g\<rparr>))))\<close>

subsection \<open>The public wrappers\<close>

definition create_file ::
  "('fs, 'j) host \<Rightarrow> string \<Rightarrow> string \<Rightarrow> pdata \<Rightarrow> bool \<Rightarrow> 'fs sd \<Rightarrow> ('fs, bool) outcome" where
  "create_file E file_name dir_name data force = priv_create E file_name dir_name (Plain data) force"

definition create_csv ::
  "('fs, 'j) host \<Rightarrow> string \<Rightarrow> string \<Rightarrow> item list option \<Rightarrow> bool \<Rightarrow> 'fs sd
     \<Rightarrow> ('fs, bool) outcome" where
  "create_csv E file_name dir_name data force = priv_create E file_name dir_name (Csv data) force"

definition create_json ::
  "('fs, 'j) host \<Rightarrow> string \<Rightarrow> string \<Rightarrow> 'j \<Rightarrow> bool \<Rightarrow> 'fs sd \<Rightarrow> ('fs, bool) outcome" where
  "create_json E file_name dir_name data force = priv_create E file_name dir_name (Json data) force"

definition update_file ::
  "('fs, 'j) host \<Rightarrow> string \<Rightarrow> pdata \<Rightarrow> 'fs sd \<Rightarrow> ('fs, bool) outcome" where
  "update_file E file_name data = priv_update E file_name (Plain data)"

definition update_csv ::
  "('fs, 'j) host \<Rightarrow> string \<Rightarrow> item list option \<Rightarrow> 'fs sd \<Rightarrow> ('fs, bool) outcome" where
  "update_csv E file_name data = priv_update E file_name (Csv data)"

definition update_json :: "('fs, 'j) host \<Rightarrow> string \<Rightarrow> 'j \<Rightarrow> 'fs sd \<Rightarrow> ('fs, bool) outcome" where
  "update_json E file_name data = priv_update E file_name (Json data)"

definition read_file :: "('fs, 'j) host \<Rightarrow> string \<Rightarrow> 'fs sd \<Rightarrow> ('fs, 'j rdata) outcome" where
  "read_file E file_name = priv_read E file_name [] '';'' [CHR 0x0A] False"

definition read_csv ::
  "('fs, 'j) host \<Rightarrow> string \<Rightarrow> string \<Rightarrow> string \<Rightarrow> bool \<Rightarrow> 'fs sd \<Rightarrow> ('fs, 'j rdata) outcome" where
  "read_csv E file_name separator newline row_list =
     priv_read E file_name ''csv'' separator newline row_list"

definition read_json :: "('fs, 'j) host \<Rightarrow> string \<Rightarrow> 'fs sd \<Rightarrow> ('fs, 'j rdata) outcome" where
  "read_json E file_name = priv_read E file_name ''json'' '';'' [CHR 0x0A] False"

section \<open>A concrete filesystem for the host\<close>

text \<open>
  A flat model of the card's filesystem, used where a property depends on what the calls
  leave behind: the working directory, the directories and the regular files with their
  content, all under absolute paths such as \<open>/sd4/a.txt\<close>; the root is \<open>/\<close>.
  A path that starts with \<open>/\<close> is absolute, the empty path is the working directory
  (as for \<open>uos.listdir()\<close>), any other path is taken below the working directory;
  \<open>getcwd\<close> returns the path without a trailing slash, except for the root.
  Paths are compared as written: \<open>.\<close>, \<open>..\<close> and doubled or trailing slashes name
  nothing. A failing call raises \<open>OSError\<close> with a positive \<open>errno\<close>.
\<close>

record vfs =
  cwd :: string
  dirs :: "string list"
  files :: "(string \<times> string) list"

definition abs_path :: "string \<Rightarrow> string \<Rightarrow> string" where
  "abs_path c p =
     (if p = [] then c
      else if hd p = CHR ''/'' then p
      else if c = ''/'' then ''/'' @ p
      else c @ ''/'' @ p)"

definition parent :: "string \<Rightarrow> string" where
  "parent a = (let i = rfind a (CHR ''/'') in if i \<le> 0 then ''/'' else take (nat i) a)"

definition base :: "string \<Rightarrow> string" where
  "base a = drop (nat (rfind a (CHR ''/'') + 1)) a"

definition is_dir_at :: "vfs \<Rightarrow> string \<Rightarrow> bool" where
  "is_dir_at g a = (a \<in> set (dirs g))"

definition is_file_at :: "vfs \<Rightarrow> string \<Rightarrow> bool" where
  "is_file_at g a = (a \<in> set (map fst (files g)))"

definition content :: "vfs \<Rightarrow> string \<Rightarrow> string option" where
  "content g a = map_of (files g) a"

fun upd :: "string \<Rightarrow> string \<Rightarrow> (string \<times> string) list \<Rightarrow> (string \<times> string) list" where
  "upd k v [] = [(k, v)]"
| "upd k v (x # xs) = (if fst x = k then (k, v) # xs else x # upd k v xs)"

definition enoent :: exn where
  "enoent = OSError 2 ''[Errno 2] ENOENT''"

definition eexist :: exn where
  "eexist = OSError 17 ''[Errno 17] EEXIST''"

definition eisdir :: exn where
  "eisdir = OSError 21 ''[Errno 21] EISDIR''"

definition eacces :: exn where
  "eacces = OSError 13 ''[Errno 13] EACCES''"

definition ebadf :: exn where
  "ebadf = OSError 9 ''[Errno 9] EBADF''"

text \<open>Whether a new entry may be made at the absolute path \<open>a\<close>.\<close>

definition creatable :: "vfs \<Rightarrow> string \<Rightarrow> bool" where
  "creatable g a = (base a \<noteq> [] \<and> is_dir_at g (parent a))"

definition vfs_chdir :: "string \<Rightarrow> vfs \<Rightarrow> exn + vfs" where
  "vfs_chdir p g =
     (let a = abs_path (cwd g) p in
      if is_dir_at g a then Inr (g\<lparr>cwd := a\<rparr>) else Inl enoent)"

definition vfs_mkdir :: "string \<Rightarrow> vfs \<Rightarrow> exn + vfs" where
  "vfs_mkdir p g =
     (let a = abs_path (cwd g) p in
      if is_dir_at g a \<or> is_file_at g a then Inl eexist
      else if \<not> creatable g a then Inl enoent
      else Inr (g\<lparr>dirs := dirs g @ [a]\<rparr>))"

definition children :: "vfs \<Rightarrow> string \<Rightarrow> string list" where
  "children g a =
     map base (filter (\<lambda>q. q \<noteq> ''/'' \<and> parent q = a \<and> base q \<noteq> [])
                      (dirs g @ map fst (files g)))"

definition vfs_listdir :: "string \<Rightarrow> vfs \<Rightarrow> exn + string list" where
  "vfs_listdir p g =
     (let a = abs_path (cwd g) p in
      if is_dir_at g a then Inr (children g a) else Inl enoent)"

definition vfs_rmdir :: "string \<Rightarrow> vfs \<Rightarrow> exn + vfs" where
  "vfs_rmdir p g =
     (let a = abs_path (cwd g) p in
      if \<not> is_dir_at g a then Inl enoent
      else if a = ''/'' \<or> children g a \<noteq> [] then Inl eacces
      else Inr (g\<lparr>dirs := removeAll a (dirs g)\<rparr>))"

definition vfs_remove :: "string \<Rightarrow> vfs \<Rightarrow> exn + vfs" where
  "vfs_remove p g =
     (let a = abs_path (cwd g) p in
      if is_file_at g a then Inr (g\<lparr>files := filter (\<lambda>x. fst x \<noteq> a) (files g)\<rparr>)
      else if is_dir_at g a then Inl eisdir
      else Inl enoent)"

text \<open>Renaming moves a file, or a directory with everything below it.\<close>

definition moved :: "string \<Rightarrow> string \<Rightarrow> string \<Rightarrow> string" where
  "moved a b q =
     (if q = a then b
      else if startswith q (a @ ''/'') then b @ drop (length a) q
      else q)"

definition vfs_rename :: "string \<Rightarrow> string \<Rightarrow> vfs \<Rightarrow> exn + vfs" where
  "vfs_rename p q g =
     (let a = abs_path (cwd g) p; b = abs_path (cwd g) q in
      if \<not> (is_file_at g a \<or> is_dir_at g a) \<or> a = ''/'' then Inl enoent
      else if is_file_at g b \<or> is_dir_at g b then Inl eexist
      else if \<not> creatable g b \<or> startswith b (a @ ''/'') then Inl enoent
      else Inr (g\<lparr>cwd := moved a b (cwd g),
                 dirs := map (moved a b) (dirs g),
                 files := map (\<lambda>x. (moved a b (fst x), snd x)) (files g)\<rparr>))"

text \<open>
  \<open>open\<close>: mode \<open>r\<close> needs the file; \<open>w\<close> creates or empties it; \<open>a\<close> creates it or keeps
  its content. The file object is named by the absolute path, and a write appends to
  what the file holds.
\<close>

definition vfs_open :: "string \<Rightarrow> char \<Rightarrow> vfs \<Rightarrow> exn + (string \<times> vfs)" where
  "vfs_open p method g =
     (let a = abs_path (cwd g) p in
      if method = CHR ''r'' then
        (if is_file_at g a then Inr (a, g) else if is_dir_at g a then Inl eisdir else Inl enoent)
      else if method = CHR ''w'' \<or> method = CHR ''a'' then
        (if is_dir_at g a then Inl eisdir
         else if is_file_at g a then
           Inr (a, if method = CHR ''w'' then g\<lparr>files := upd a [] (files g)\<rparr> else g)
         else if \<not> creatable g a then Inl enoent
         else Inr (a, g\<lparr>files := upd a [] (files g)\<rparr>))
      else Inl (OtherExc ''invalid mode''))"

definition vfs_write :: "string \<Rightarrow> string \<Rightarrow> vfs \<Rightarrow> exn + vfs" where
  "vfs_write h t g =
     (case content g h of
        None \<Rightarrow> Inl ebadf
      | Some old \<Rightarrow> Inr (g\<lparr>files := upd h (old @ t) (files g)\<rparr>))"

definition vfs_read :: "string \<Rightarrow> vfs \<Rightarrow> exn + string" where
  "vfs_read h g = (case content g h of None \<Rightarrow> Inl ebadf | Some t \<Rightarrow> Inr t)"

text \<open>The host over this filesystem; the json module stays a parameter.\<close>

definition vfs_host ::
  "('j \<Rightarrow> exn + string) \<Rightarrow> (string \<Rightarrow> exn + 'j) \<Rightarrow> (vfs, 'j) host" where
  "vfs_host dumps loads =
     \<lparr>uos_getcwd = cwd, uos_chdir = vfs_chdir, uos_mkdir = vfs_mkdir, uos_rmdir = vfs_rmdir,
      uos_listdir = vfs_listdir, uos_remove = vfs_remove, uos_rename = vfs_rename,
      f_open = vfs_open, f_write = vfs_write, f_read = vfs_read, f_close = (\<lambda>h g. g),
      json_dumps = dumps, json_loads = loads\<rparr>"

text \<open>A newly constructed object: the class attribute \<open>_error\<close> is the empty string.\<close>

definition new_sd :: "'fs \<Rightarrow> 'fs sd" where
  "new_sd g = \<lparr>error = [], fs = g\<rparr>"

text \<open>
  States used to evaluate the methods: an empty card with the working directory at the
  root, and a card with the directory \<open>/sd4\<close>, the file \<open>/sd4/f.txt\<close> in it and the
  working directory there. \<open>text_host\<close> is the host over this filesystem with a json module
  whose values are the texts themselves.
\<close>

definition empty_card :: vfs where
  "empty_card = \<lparr>cwd = ''/'', dirs = [''/''], files = []\<rparr>"

definition sd4_card :: vfs where
  "sd4_card = \<lparr>cwd = ''/sd4'', dirs = [''/'', ''/sd4''], files = [(''/sd4/f.txt'', ''old'')]\<rparr>"

definition text_host :: "(vfs, string) host" where
  "text_host = vfs_host Inr Inr"

text \<open>A card with the directory \<open>/a\<close> and, inside it, another directory \<open>a\<close>.\<close>

definition nested_card :: vfs where
  "nested_card = \<lparr>cwd = ''/'', dirs = [''/'', ''/a'', ''/a/a''], files = []\<rparr>"

text \<open>A card with the empty file \<open>/prueba1.doc\<close> in the root, the working directory.\<close>

definition doc_card :: vfs where
  "doc_card = \<lparr>cwd = ''/'', dirs = [''/''], files = [(''/prueba1.doc'', [])]\<rparr>"

text \<open>The same host, except that \<open>uos.chdir\<close> raises an exception that is not an \<open>OSError\<close>.\<close>

definition failing_chdir :: "(vfs, string) host" where
  "failing_chdir = text_host\<lparr>uos_chdir := \<lambda>p g. Inl (OtherExc ''memory allocation failed'')\<rparr>"

section \<open>Properties\<close>

subsection \<open>String helpers\<close>

lemma startswith_iff: "startswith s p \<longleftrightarrow> (\<exists>v. s = p @ v)"
  by (induction s p rule: startswith.induct) auto

lemma contains_iff: "contains p s \<longleftrightarrow> (\<exists>u v. s = u @ p @ v)"
proof (induction s)
  case Nil
  then show ?case by auto
next
  case (Cons c s)
  show ?case
  proof
    assume "contains p (c # s)"
    then consider "startswith (c # s) p" | "contains p s" by auto
    then show "\<exists>u v. c # s = u @ p @ v"
    proof cases
      case 1
      then obtain v where "c # s = p @ v" by (auto simp: startswith_iff)
      then have "c # s = [] @ p @ v" by simp
      then show ?thesis by blast
    next
      case 2
      then obtain u v where "s = u @ p @ v" using Cons.IH by auto
      then have "c # s = (c # u) @ p @ v" by simp
      then show ?thesis by blast
    qed
  next
    assume "\<exists>u v. c # s = u @ p @ v"
    then obtain u v where uv: "c # s = u @ p @ v" by auto
    show "contains p (c # s)"
    proof (cases u)
      case Nil
      then have "startswith (c # s) p" using uv by (auto simp: startswith_iff)
      then show ?thesis by simp
    next
      case (Cons a u')
      then have "s = u' @ p @ v" using uv by simp
      then have "contains p s" using Cons.IH by blast
      then show ?thesis by simp
    qed
  qed
qed

lemmas sd_defs =
  dir_exists_def file_exists_def exists_path_def mkdir_def cd_def cd_fail_def
  rmdir_def dir_def is_file_def is_file_try_def finally_return_def is_dir_def with_cwd_def
  delete_file_def rename_file_def priv_create_def priv_update_def priv_read_def
  create_file_def create_csv_def create_json_def update_file_def update_csv_def update_json_def
  read_file_def read_csv_def read_json_def write_payload_def priv_write_data_def
  priv_write_csv_def priv_write_json_def written_def with_open_def csv_line_def csv_item_def
  priv_str_join_def priv_read_file_def priv_read_csv_def priv_read_json_def read_text_def
  readlines_def split_def andthen_def clean_error_def truthy_def endswith_slash_def str_of_int_def

lemmas vfs_defs =
  vfs_host_def vfs_chdir_def vfs_mkdir_def vfs_listdir_def vfs_rmdir_def vfs_remove_def
  vfs_rename_def vfs_open_def vfs_write_def vfs_read_def abs_path_def parent_def base_def
  is_dir_at_def is_file_at_def content_def creatable_def children_def rfind_def
  enoent_def eexist_def eisdir_def eacces_def ebadf_def new_sd_def
  empty_card_def sd4_card_def nested_card_def text_host_def Let_def

subsection \<open>is\_file\<close>

text \<open>
  C10. For every host, every file name and every state, \<open>is_file\<close> returns \<open>False\<close>:
  when the file opens, the \<open>try\<close> body is about to return \<open>True\<close>, and when \<open>open\<close>
  raises, an exception is pending; the \<open>return False\<close> of the \<open>finally\<close> clause replaces
  both. The error field is not touched.
\<close>

theorem is_file_always_False:
  "fst (is_file E file_name s) = Inr False
   \<and> error (snd (is_file E file_name s)) = error s
   \<and> (\<forall>h g. f_open E file_name (CHR ''r'') (fs s) = Inr (h, g)
        \<longrightarrow> is_file_try E file_name s = (Inr True, s\<lparr>fs := f_close E h g\<rparr>)
            \<and> is_file E file_name s = (Inr False, s\<lparr>fs := f_close E h g\<rparr>))"
  by (auto simp: is_file_def is_file_try_def finally_return_def split: sum.splits)


theorem is_file_always_False_witness:
  "f_open text_host ''/sd4/f.txt'' (CHR ''r'') (fs (new_sd sd4_card)) = Inr (''/sd4/f.txt'', sd4_card)
   \<and> is_file_try text_host ''/sd4/f.txt'' (new_sd sd4_card) = (Inr True, new_sd sd4_card)
   \<and> is_file text_host ''/sd4/f.txt'' (new_sd sd4_card) = (Inr False, new_sd sd4_card)"
proof -
  have o: "f_open text_host ''/sd4/f.txt'' (CHR ''r'') (fs (new_sd sd4_card))
             = Inr (''/sd4/f.txt'', sd4_card)"
    by (simp add: vfs_defs)
  have c: "(new_sd sd4_card)\<lparr>fs := f_close text_host ''/sd4/f.txt'' sd4_card\<rparr> = new_sd sd4_card"
    by (simp add: vfs_defs)
  show ?thesis
    using is_file_always_False [of text_host "''/sd4/f.txt''" "new_sd sd4_card"] o c by simp
qed

subsection \<open>get\_error\<close>

text \<open>
  C3. \<open>get_error\<close> returns the stored error string and leaves the object as it is,
  except when the stored string contains \<open>OSError\<close>: then it empties the field and returns
  the empty string. Hence a stored error without \<open>OSError\<close> is returned again by the
  next \<open>get_error\<close>.
\<close>

theorem get_error_returns_or_clears:
  "get_error s =
     (if (\<exists>u v. error s = u @ ''OSError'' @ v) then ([], s\<lparr>error := []\<rparr>) else (error s, s))
   \<and> get_error (snd (get_error s)) = (fst (get_error s), snd (get_error s))"
proof -
  have a: "get_error s =
     (if (\<exists>u v. error s = u @ ''OSError'' @ v) then ([], s\<lparr>error := []\<rparr>) else (error s, s))"
    unfolding get_error_def Let_def contains_iff by simp
  have b: "\<not> (\<exists>u v. ([]::string) = u @ ''OSError'' @ v)" by simp
  have "get_error (snd (get_error s)) = (fst (get_error s), snd (get_error s))"
  proof (cases "\<exists>u v. error s = u @ ''OSError'' @ v")
    case True
    then have "get_error s = ([], s\<lparr>error := []\<rparr>)" using a by simp
    moreover have "get_error (s\<lparr>error := []\<rparr>) = ([], s\<lparr>error := []\<rparr>)"
      unfolding get_error_def Let_def contains_iff using b by simp
    ultimately show ?thesis by simp
  next
    case False
    then have "get_error s = (error s, s)" using a by simp
    then show ?thesis by simp
  qed
  with a show ?thesis by blast
qed

theorem get_error_returns_or_clears_witness:
  \<open>get_error \<lparr>error = ''Error: <class 'OSError'>'', fs = empty_card\<rparr>
     = ([], \<lparr>error = [], fs = empty_card\<rparr>)
   \<and> get_error \<lparr>error = ''dir_name is empty'', fs = empty_card\<rparr>
     = (''dir_name is empty'', \<lparr>error = ''dir_name is empty'', fs = empty_card\<rparr>)\<close>
proof -
  have a: \<open>\<exists>u v. ''Error: <class 'OSError'>'' = u @ ''OSError'' @ v\<close>
  proof -
    have \<open>''Error: <class 'OSError'>'' = (''Error: <class '' @ [CHR 0x27]) @ ''OSError'' @ (CHR 0x27 # ''>'')\<close>
      by simp
    then show ?thesis by blast
  qed
  have b: "\<not> (\<exists>u v. ''dir_name is empty'' = u @ ''OSError'' @ v)"
    unfolding contains_iff [symmetric] by simp
  show ?thesis
    using get_error_returns_or_clears [of \<open>\<lparr>error = ''Error: <class 'OSError'>'', fs = empty_card\<rparr>\<close>]
      get_error_returns_or_clears [of \<open>\<lparr>error = ''dir_name is empty'', fs = empty_card\<rparr>\<close>] a b
    by simp
qed

subsection \<open>dir\_exists\<close>

lemma dir_exists_ok:
  "uos_chdir E p (fs s) = Inr g \<Longrightarrow>
     dir_exists E p s = (Inr (Some True), s\<lparr>error := [], fs := g\<rparr>)"
  by (simp add: dir_exists_def clean_error_def)

lemma dir_exists_oserror:
  \<open>uos_chdir E p (fs s) = Inl (OSError n t) \<Longrightarrow>
     dir_exists E p s = (Inr (Some False), s\<lparr>error := ''Error: <class 'OSError'>''\<rparr>)\<close>
  by (simp add: dir_exists_def clean_error_def)

lemma dir_exists_other:
  "uos_chdir E p (fs s) = Inl (OtherExc t) \<Longrightarrow>
     dir_exists E p s = (Inr None, s\<lparr>error := ''Unknow error: '' @ t\<rparr>)"
  by (simp add: dir_exists_def clean_error_def)

lemma dir_exists_True_iff:
  "fst (dir_exists E p s) = Inr (Some True) \<longleftrightarrow> (\<exists>g. uos_chdir E p (fs s) = Inr g)"
  by (auto simp: dir_exists_def clean_error_def Let_def split: sum.splits exn.splits)

text \<open>
  C9. \<open>dir_exists\<close> returns \<open>True\<close> exactly when \<open>uos.chdir\<close> succeeds, and leaves the
  working directory where \<open>chdir\<close> put it (\<open>dir_exists_ok\<close>, \<open>dir_exists_True_iff\<close>); it
  returns \<open>False\<close> when \<open>chdir\<close> raises \<open>OSError\<close> (\<open>dir_exists_oserror\<close>). When \<open>chdir\<close>
  raises any other exception the second handler records the message and ends without a
  \<open>return\<close>: the method returns \<open>None\<close>, which is not a boolean.
\<close>

theorem dir_exists_returns_None:
  "dir_exists failing_chdir ''/sd4'' (new_sd sd4_card)
     = (Inr None, \<lparr>error = ''Unknow error: memory allocation failed'', fs = sd4_card\<rparr>)"
  by (simp add: dir_exists_other failing_chdir_def new_sd_def)

subsection \<open>\_create and the target directory\<close>

lemma write_payload_returns: "\<exists>b s1. write_payload E data file_name d m s = (Inr b, s1)"
  by (cases data)
     (auto simp: write_payload_def priv_write_data_def priv_write_csv_def priv_write_json_def
        written_def split: prod.splits option.splits)

lemma priv_create_existing_dir_refused:
  assumes "file_name \<noteq> []"
    and "d = (if dir_name \<noteq> [] \<and> dir_name \<noteq> ''/'' then dir_name else uos_getcwd E (fs s))"
    and "d \<noteq> ''/''"
    and "uos_chdir E d (fs s) = Inr g"
  shows \<open>priv_create E file_name dir_name data False s
           = (Inr False,
              s\<lparr>error := ''"'' @ d @ ''" not exists, use forde=True to force creation'',
                fs := g\<rparr>)\<close>
proof -
  have fsc: "fs (clean_error s) = fs s" by (simp add: clean_error_def)
  have d: "(if dir_name \<noteq> [] \<and> dir_name \<noteq> ''/'' then dir_name else uos_getcwd E (fs s)) = d"
    using assms(2) by simp
  show ?thesis
    unfolding priv_create_def Let_def fsc d
    using assms(1,3,4)
    by (simp add: dir_exists_def clean_error_def andthen_def truthy_def)
qed

lemma priv_create_missing_dir_proceeds:
  assumes "file_name \<noteq> []"
    and "d = (if dir_name \<noteq> [] \<and> dir_name \<noteq> ''/'' then dir_name else uos_getcwd E (fs s))"
    and "d \<noteq> ''/''"
    and "uos_chdir E d (fs s) = Inl e"
  shows "fst (priv_create E file_name dir_name data False s) = Inr True"
proof -
  obtain r s1 where r: "dir_exists E d (clean_error s) = (Inr r, s1)" "\<not> truthy r"
    using assms(4)
    by (cases e) (auto simp: dir_exists_def clean_error_def truthy_def)
  have d: "(if dir_name \<noteq> [] \<and> dir_name \<noteq> ''/'' then dir_name else uos_getcwd E (fs s)) = d"
    using assms(2) by simp
  obtain b s3 where w:
    "write_payload E data file_name
       (if d @ (if endswith_slash d then [] else ''/'') \<noteq> ''/''
        then d @ (if endswith_slash d then [] else ''/'') else [])
       (CHR ''w'') s1 = (Inr b, s3)"
    using write_payload_returns by blast
  have fsc: "fs (clean_error s) = fs s" by (simp add: clean_error_def)
  show ?thesis
    unfolding priv_create_def Let_def fsc d
    using assms(1,3) r w by (simp add: andthen_def)
qed

text \<open>
  C1. The guard of \<open>_create\<close> reads \<open>self.dir_exists(dir_name) and not force\<close>, without
  the negation its message announces. With \<open>force\<close> false, a target directory that does
  not exist lets the call go on to the writer, whose failure is dropped: the call
  returns \<open>True\<close>. A target directory that does exist makes the call return \<open>False\<close>
  with the message that it does not exist. (With \<open>force\<close> true and the directory
  missing, the directory is created and the file written.)
\<close>

theorem create_file_guard_inverted:
  \<open>create_file text_host ''a.txt'' ''/nodir'' PNone False (new_sd empty_card)
     = (Inr True,
        \<lparr>error = ''a.txt File write error -> [Errno 2] ENOENT'', fs = empty_card\<rparr>)
   \<and> create_file text_host ''a.txt'' ''/sd4'' PNone False (new_sd (sd4_card\<lparr>cwd := ''/''\<rparr>))
     = (Inr False,
        \<lparr>error = ''"/sd4" not exists, use forde=True to force creation'', fs = sd4_card\<rparr>)
   \<and> create_file text_host ''a.txt'' ''/new'' (PStr ''Hi'') True (new_sd empty_card)
     = (Inr True,
        \<lparr>error = ''Error: <class 'OSError'>'',
         fs = \<lparr>cwd = ''/'', dirs = [''/'', ''/new''], files = [(''/new/a.txt'', ''Hi'')]\<rparr>\<rparr>)\<close>
  by (simp add: sd_defs vfs_defs)

subsection \<open>What the methods do with the error field and with exceptions\<close>

text \<open>A method that starts with \<open>_clean_error\<close> does not depend on the error stored before.\<close>

lemma clean_error_upd [simp]: "clean_error (s\<lparr>error := e\<rparr>) = clean_error s"
  by (simp add: clean_error_def)

lemma fs_clean_error [simp]: "fs (clean_error s) = fs s"
  by (simp add: clean_error_def)

lemma error_clean_error [simp]: "error (clean_error s) = []"
  by (simp add: clean_error_def)

lemma dir_exists_clears: "dir_exists E p (s\<lparr>error := e\<rparr>) = dir_exists E p s"
  by (simp add: dir_exists_def)

lemma file_exists_clears: "file_exists E n p (s\<lparr>error := e\<rparr>) = file_exists E n p s"
  by (simp add: file_exists_def)

lemma exists_path_clears: "exists_path E p (s\<lparr>error := e\<rparr>) = exists_path E p s"
  by (simp add: exists_path_def)

lemma mkdir_clears: "mkdir E d (s\<lparr>error := e\<rparr>) = mkdir E d s"
  by (simp add: mkdir_def)

lemma cd_clears: "cd E d c (s\<lparr>error := e\<rparr>) = cd E d c s"
  by (simp add: cd_def)

lemma is_dir_clears: "is_dir E d (s\<lparr>error := e\<rparr>) = is_dir E d s"
  by (simp add: is_dir_def cd_clears)

lemma delete_file_clears: "delete_file E n (s\<lparr>error := e\<rparr>) = delete_file E n s"
  by (simp add: delete_file_def with_cwd_def)

lemma rename_file_clears: "rename_file E n m (s\<lparr>error := e\<rparr>) = rename_file E n m s"
  by (simp add: rename_file_def with_cwd_def)

lemma priv_create_clears:
  "priv_create E n d data force (s\<lparr>error := e\<rparr>) = priv_create E n d data force s"
  by (simp add: priv_create_def)

lemma priv_update_clears: "priv_update E n data (s\<lparr>error := e\<rparr>) = priv_update E n data s"
  by (simp add: priv_update_def with_cwd_def)

lemma priv_read_clears:
  "priv_read E n t sep nl rl (s\<lparr>error := e\<rparr>) = priv_read E n t sep nl rl s"
  by (simp add: priv_read_def with_cwd_def)

text \<open>Methods that catch every exception of the host calls they make.\<close>

lemma dir_exists_returns: "\<exists>r s1. dir_exists E p s = (Inr r, s1)"
  by (auto simp: dir_exists_def Let_def split: sum.splits exn.splits)

lemma dir_exists_error:
  "dir_exists E p s = (Inr r, s1) \<Longrightarrow> truthy r \<Longrightarrow> error s1 = []"
  by (auto simp: dir_exists_def Let_def truthy_def split: sum.splits exn.splits)

lemma mkdir_returns: "\<exists>b s1. mkdir E d s = (Inr b, s1)"
  using dir_exists_returns [of E d "clean_error s"]
  by (auto simp: mkdir_def Let_def andthen_def split: sum.splits)

lemma cd_returns: "\<exists>b s1. cd E d c s = (Inr b, s1)"
proof (cases "d = []")
  case True
  then show ?thesis by (auto simp: cd_def andthen_def cd_fail_def)
next
  case False
  obtain r1 s1 where a: "dir_exists E d (clean_error s) = (Inr r1, s1)"
    using dir_exists_returns by blast
  obtain b2 s2 where b: "mkdir E d s1 = (Inr b2, s2)"
    using mkdir_returns by blast
  obtain r3 s3 where c: "dir_exists E d s1 = (Inr r3, s3)"
    using dir_exists_returns by blast
  obtain r4 s4 where d: "dir_exists E d s2 = (Inr r4, s4)"
    using dir_exists_returns by blast
  show ?thesis
    using False a b c d
    by (auto simp: cd_def andthen_def cd_fail_def Let_def split: sum.splits exn.splits)
qed

lemma rmdir_returns: "\<exists>b s1. rmdir E d s = (Inr b, s1)"
  by (auto simp: rmdir_def split: sum.splits)

lemma is_file_returns: "\<exists>b s1. is_file E n s = (Inr b, s1)"
  by (auto simp: is_file_def finally_return_def)

lemma is_dir_returns: "\<exists>b s1. is_dir E d s = (Inr b, s1)"
proof -
  obtain b1 s1 where a: "cd E d False s = (Inr b1, s1)" using cd_returns by blast
  obtain b2 s2 where b: "cd E (uos_getcwd E (fs s)) False s1 = (Inr b2, s2)"
    using cd_returns by blast
  show ?thesis using a b by (auto simp: is_dir_def andthen_def Let_def)
qed

lemma priv_create_returns: "\<exists>b s1. priv_create E n d data False s = (Inr b, s1)"
proof (cases "n = []")
  case True
  then show ?thesis by (auto simp: priv_create_def)
next
  case False
  define dn where "dn = (if d \<noteq> [] \<and> d \<noteq> ''/'' then d else uos_getcwd E (fs s))"
  obtain r1 s1 where a: "dir_exists E dn (clean_error s) = (Inr r1, s1)"
    using dir_exists_returns by blast
  define d2 where "d2 = (if dn @ (if endswith_slash dn then [] else ''/'') \<noteq> ''/''
        then dn @ (if endswith_slash dn then [] else ''/'') else [])"
  obtain b3 s3 where w1: "write_payload E data n d2 (CHR ''w'') s1 = (Inr b3, s3)"
    using write_payload_returns by blast
  obtain b4 s4 where w2: "write_payload E data n d2 (CHR ''w'') (clean_error s) = (Inr b4, s4)"
    using write_payload_returns by blast
  show ?thesis
    unfolding priv_create_def Let_def fs_clean_error dn_def [symmetric] d2_def [symmetric]
    using False a w1 w2 by (auto simp: andthen_def)
qed

text \<open>
  The methods that go through \<open>file_exists\<close> pass on what \<open>uos.listdir\<close> raises and nothing
  else; a success value comes with an empty error field.
\<close>

lemma file_exists_raises:
  "file_exists E n p s = (Inl e, s1) \<Longrightarrow> \<exists>q g. uos_listdir E q g = Inl e"
  using dir_exists_returns [of E p "clean_error s"]
  by (fastforce simp: file_exists_def andthen_def split: if_splits sum.splits)

lemma file_exists_True:
  "file_exists E n p s = (Inr True, s1) \<Longrightarrow> error s1 = []"
  using dir_exists_returns [of E p "clean_error s"] dir_exists_error [of E p "clean_error s"]
  by (auto simp: file_exists_def andthen_def split: if_splits sum.splits)

lemma exists_path_raises:
  "exists_path E p s = (Inl e, s1) \<Longrightarrow> \<exists>q g. uos_listdir E q g = Inl e"
proof -
  assume a: "exists_path E p s = (Inl e, s1)"
  define path where "path = take (nat (rfind p (CHR ''/''))) p"
  define name where "name = drop (nat (rfind p (CHR ''/'') + 1)) p"
  obtain r s2 where d: "dir_exists E path (clean_error s) = (Inr r, s2)"
    using dir_exists_returns by blast
  have "file_exists E name path s2 = (Inl e, s1)"
    using a d unfolding exists_path_def Let_def path_def [symmetric] name_def [symmetric]
    by (auto simp: andthen_def split: if_splits)
  then show ?thesis by (rule file_exists_raises)
qed

lemma exists_path_True:
  "exists_path E p s = (Inr True, s1) \<Longrightarrow> error s1 = []"
proof -
  assume a: "exists_path E p s = (Inr True, s1)"
  define path where "path = take (nat (rfind p (CHR ''/''))) p"
  define name where "name = drop (nat (rfind p (CHR ''/'') + 1)) p"
  obtain r s2 where d: "dir_exists E path (clean_error s) = (Inr r, s2)"
    using dir_exists_returns by blast
  have "file_exists E name path s2 = (Inr True, s1)"
    using a d unfolding exists_path_def Let_def path_def [symmetric] name_def [symmetric]
    by (auto simp: andthen_def split: if_splits)
  then show ?thesis by (rule file_exists_True)
qed

lemma andthen_Inl:
  "andthen m k = (Inl e, s1) \<Longrightarrow>
     m = (Inl e, s1) \<or> (\<exists>a s. m = (Inr a, s) \<and> k a s = (Inl e, s1))"
  by (auto simp: andthen_def split: prod.splits sum.splits)

lemma andthen_Inr:
  "andthen m k = (Inr b, s1) \<Longrightarrow> \<exists>a s. m = (Inr a, s) \<and> k a s = (Inr b, s1)"
  by (auto simp: andthen_def split: prod.splits sum.splits)

lemma delete_file_raises:
  "delete_file E n s = (Inl e, s1) \<Longrightarrow> \<exists>q g. uos_listdir E q g = Inl e"
  unfolding delete_file_def Let_def
  by (auto dest!: andthen_Inl dest!: exists_path_raises split: if_splits sum.splits)

lemma delete_file_True:
  "delete_file E n s = (Inr True, s1) \<Longrightarrow> error s1 = []"
  unfolding delete_file_def Let_def
  by (auto dest!: andthen_Inr dest!: exists_path_True split: if_splits sum.splits)

lemma rename_file_raises:
  "rename_file E n m s = (Inl e, s1) \<Longrightarrow> \<exists>q g. uos_listdir E q g = Inl e"
  unfolding rename_file_def Let_def
  by (auto dest!: andthen_Inl dest!: exists_path_raises split: if_splits sum.splits)

lemma rename_file_True:
  "rename_file E n m s = (Inr True, s1) \<Longrightarrow> error s1 = []"
  unfolding rename_file_def Let_def
  by (auto dest!: andthen_Inr dest!: exists_path_True split: if_splits sum.splits)

lemma priv_update_raises:
  "priv_update E n data s = (Inl e, s1) \<Longrightarrow> \<exists>q g. uos_listdir E q g = Inl e"
  unfolding priv_update_def Let_def
  by (auto dest!: andthen_Inl dest!: exists_path_raises split: if_splits sum.splits prod.splits)

lemma priv_read_raises:
  "priv_read E n t sep nl rl s = (Inl e, s1) \<Longrightarrow> \<exists>q g. uos_listdir E q g = Inl e"
  unfolding priv_read_def Let_def
  by (auto dest!: andthen_Inl dest!: exists_path_raises split: if_splits sum.splits prod.splits)

lemma reader_not_RFalse:
  "priv_read_file E n g = (Inr d, g1) \<Longrightarrow> d \<noteq> RFalse"
  "priv_read_csv E n sep nl rl g = (Inr d, g1) \<Longrightarrow> d \<noteq> RFalse"
  "priv_read_json E n g = (Inr d, g1) \<Longrightarrow> d \<noteq> RFalse"
  by (auto simp: priv_read_file_def priv_read_csv_def priv_read_json_def Let_def
      split: prod.splits sum.splits if_splits)

lemma priv_read_data:
  "priv_read E n t sep nl rl s = (Inr d, s1) \<Longrightarrow> d \<noteq> RFalse \<Longrightarrow> error s1 = []"
  unfolding priv_read_def Let_def
  by (auto dest!: andthen_Inr dest!: exists_path_True split: if_splits sum.splits prod.splits)

lemma mkdir_True:
  \<open>mkdir E d s = (Inr True, s1) \<Longrightarrow>
     error s1 = ''Error: <class 'OSError'>'' \<or> (\<exists>t. error s1 = ''Unknow error: '' @ t)\<close>
  by (auto simp: mkdir_def dir_exists_def Let_def andthen_def truthy_def clean_error_def
      split: if_splits sum.splits exn.splits)

lemma cd_True: "cd E d c s = (Inr True, s1) \<Longrightarrow> error s1 = []"
proof -
  assume a: "cd E d c s = (Inr True, s1)"
  have ne: "d \<noteq> []" using a by (auto simp: cd_def andthen_def cd_fail_def Let_def)
  obtain r1 sa where p1: "dir_exists E d (clean_error s) = (Inr r1, sa)"
    using dir_exists_returns by blast
  obtain b2 sb where p2: "mkdir E d sa = (Inr b2, sb)" using mkdir_returns by blast
  define sc where "sc = (if \<not> truthy r1 \<and> c then sb else sa)"
  obtain r3 sd where p3: "dir_exists E d sc = (Inr r3, sd)" using dir_exists_returns by blast
  have e: "truthy r3 \<Longrightarrow> error sd = []" using p3 by (rule dir_exists_error)
  have "(if truthy r3 then
           (case uos_chdir E d (fs sd) of
              Inr g \<Rightarrow> (Inr True, sd\<lparr>fs := g\<rparr>)
            | Inl (OSError n t) \<Rightarrow> if n = - 2 then (Inr True, sd) else cd_fail d sd
            | Inl (OtherExc t) \<Rightarrow> (Inr False, sd))
         else cd_fail d sd) = (Inr True, s1)"
    using a ne p1 p2 p3 unfolding cd_def Let_def sc_def
    by (auto simp: andthen_def split: if_splits)
  then show ?thesis
    using e by (auto simp: cd_fail_def split: if_splits sum.splits exn.splits)
qed

text \<open>
  \<open>_create\<close> and \<open>_update\<close> drop what the writer returns: they return \<open>True\<close> with a
  message in the error field when the writer has failed, and \<open>_create\<close> also when only the
  probe of the directory has.
\<close>

lemma written_error:
  "written msg s r = (Inr b, s1) \<Longrightarrow>
     (b \<longrightarrow> error s1 = error s) \<and> (\<not> b \<longrightarrow> (\<exists>e. error s1 = msg @ exn_str e))"
  by (auto simp: written_def split: prod.splits option.splits)

lemma write_payload_error:
  "write_payload E data n d m s = (Inr b, s1) \<Longrightarrow> b \<Longrightarrow> error s1 = error s"
  by (cases data)
     (auto simp: write_payload_def priv_write_data_def priv_write_csv_def priv_write_json_def
        dest: written_error)

lemma priv_update_True:
  assumes "priv_update E n data s = (Inr True, s1)" and "error s1 \<noteq> []"
  shows "\<exists>s2. write_payload E data (with_cwd E n s) [] (CHR ''a'') s2 = (Inr False, s1)"
proof -
  define fn where "fn = with_cwd E n (clean_error s)"
  have fn: "fn = with_cwd E n s" by (simp add: fn_def with_cwd_def)
  obtain b s2 where e: "exists_path E fn (clean_error s) = (Inr b, s2)"
    using assms(1) unfolding priv_update_def Let_def fn_def
    by (auto dest!: andthen_Inr)
  have b: "b" using assms(1) e unfolding priv_update_def Let_def fn_def [symmetric]
    by (auto simp: andthen_def split: if_splits)
  then have "exists_path E fn (clean_error s) = (Inr True, s2)" using e by simp
  then have e2: "error s2 = []" by (rule exists_path_True)
  obtain b3 s3 where w: "write_payload E data fn [] (CHR ''a'') s2 = (Inr b3, s3)"
    using write_payload_returns by blast
  have "s3 = s1" using assms(1) e b w unfolding priv_update_def Let_def fn_def [symmetric]
    by (auto simp: andthen_def)
  then have "\<not> b3" using write_payload_error [OF w] e2 assms(2) by auto
  then show ?thesis using w \<open>s3 = s1\<close> fn by auto
qed

lemma priv_create_True:
  assumes "priv_create E n d data force s = (Inr True, s1)" and "error s1 \<noteq> []"
  shows \<open>error s1 = ''Error: <class 'OSError'>'' \<or> (\<exists>t. error s1 = ''Unknow error: '' @ t)
         \<or> (\<exists>d2 s2. write_payload E data n d2 (CHR ''w'') s2 = (Inr False, s1))\<close>
proof -
  have ne: "n \<noteq> []" using assms(1) by (auto simp: priv_create_def Let_def)
  define dn where "dn = (if d \<noteq> [] \<and> d \<noteq> ''/'' then d else uos_getcwd E (fs s))"
  define d2 where "d2 = (if dn @ (if endswith_slash dn then [] else ''/'') \<noteq> ''/''
        then dn @ (if endswith_slash dn then [] else ''/'') else [])"
  define pm where \<open>pm = (\<lambda>m. m = [] \<or> m = ''Error: <class 'OSError'>''
                             \<or> (\<exists>t. m = ''Unknow error: '' @ t))\<close>
  obtain r sa where p: "dir_exists E dn (clean_error s) = (Inr r, sa)"
    using dir_exists_returns by blast
  have pa: "pm (error sa)"
    using p by (auto simp: pm_def dir_exists_def Let_def split: sum.splits exn.splits)
  define sb where "sb = (if dn \<noteq> ''/'' then sa else clean_error s)"
  have pb: "pm (error sb)" using pa by (simp add: sb_def pm_def)
  define W where "W = (\<lambda>sc.
          (case write_payload E data n d2 (CHR ''w'') sc of
              (Inr b, s3) \<Rightarrow> (Inr True, s3)
            | (Inl e, s3) \<Rightarrow> (Inr False,
                s3\<lparr>error := ''Error creating file '' @ d2 @ n @ '' -> '' @ exn_str e\<rparr>))
            = (Inr True :: exn + bool, s1))"
  have "W sb \<or> (\<exists>g. W (sb\<lparr>fs := g\<rparr>))"
  proof (cases force)
    case False
    then have "W sb"
      using assms(1) ne p
      unfolding priv_create_def Let_def fs_clean_error dn_def [symmetric] d2_def [symmetric]
        sb_def W_def
      by (simp add: andthen_def split: if_splits)
    then show ?thesis by simp
  next
    case True
    have fsb: "fs sb = fs (if dn \<noteq> ''/'' then sa else clean_error s)" by (simp add: sb_def)
    obtain g where mk: "uos_mkdir E dn (fs sb) = Inr g"
    proof (cases "uos_mkdir E dn (fs sb)")
      case (Inl e)
      then have "fst (priv_create E n d data force s) = Inl e"
        using True ne p
        unfolding priv_create_def Let_def fs_clean_error dn_def [symmetric] d2_def [symmetric]
        by (simp add: andthen_def sb_def split: if_splits)
      then show ?thesis using assms(1) by simp
    next
      case (Inr g)
      then show ?thesis using that by blast
    qed
    have "W (sb\<lparr>fs := g\<rparr>)"
      using assms(1) ne p True mk
      unfolding priv_create_def Let_def fs_clean_error dn_def [symmetric] d2_def [symmetric]
        W_def
      by (simp add: andthen_def sb_def split: if_splits)
    then show ?thesis by blast
  qed
  then obtain sc where sc: "sc = sb \<or> (\<exists>g. sc = sb\<lparr>fs := g\<rparr>)" and w: "W sc"
    by blast
  have pc: "pm (error sc)" using sc pb by (auto simp: pm_def)
  obtain b3 s3 where w3: "write_payload E data n d2 (CHR ''w'') sc = (Inr b3, s3)"
    using write_payload_returns by blast
  then have eq: "s3 = s1" using w by (simp add: W_def)
  show ?thesis
  proof (cases b3)
    case True
    then have "error s1 = error sc" using write_payload_error [OF w3] eq by simp
    then show ?thesis using pc assms(2) by (auto simp: pm_def)
  next
    case False
    then have "write_payload E data n d2 (CHR ''w'') sc = (Inr False, s1)"
      using w3 eq by simp
    then show ?thesis by blast
  qed
qed

subsection \<open>Which exceptions leave a method\<close>

lemma fst_Inl: "fst m = Inl e \<Longrightarrow> \<exists>s1. m = (Inl e, s1)"
  by (cases m) auto




subsection \<open>The error field across a call\<close>




subsection \<open>mkdir\<close>

lemma mkdir_empty: "mkdir E [] s = (Inr False, s\<lparr>error := ''dir_name is empty''\<rparr>)"
  by (simp add: mkdir_def clean_error_def)

lemma mkdir_existing:
  "d \<noteq> [] \<Longrightarrow> uos_chdir E d (fs s) = Inr g \<Longrightarrow>
     mkdir E d s = (Inr False, s\<lparr>error := d @ '' already exists'', fs := g\<rparr>)"
  by (simp add: mkdir_def dir_exists_def clean_error_def andthen_def truthy_def)

lemma vfs_host_simps [simp]:
  "uos_getcwd (vfs_host dumps loads) = cwd"
  "uos_chdir (vfs_host dumps loads) = vfs_chdir"
  "uos_mkdir (vfs_host dumps loads) = vfs_mkdir"
  "uos_listdir (vfs_host dumps loads) = vfs_listdir"
  "f_open (vfs_host dumps loads) = vfs_open"
  "f_write (vfs_host dumps loads) = vfs_write"
  "f_read (vfs_host dumps loads) = vfs_read"
  "f_close (vfs_host dumps loads) = (\<lambda>h g. g)"
  "json_dumps (vfs_host dumps loads) = dumps"
  "json_loads (vfs_host dumps loads) = loads"
  by (simp_all add: vfs_host_def)

lemma abs_path_absolute: "d \<noteq> [] \<Longrightarrow> hd d = CHR ''/'' \<Longrightarrow> abs_path c d = d"
  by (simp add: abs_path_def)

lemma vfs_mkdir_new:
  assumes "d \<noteq> []" and "a = abs_path (cwd (fs s)) d"
    and "\<not> is_dir_at (fs s) a" and "\<not> is_file_at (fs s) a" and "creatable (fs s) a"
  shows \<open>mkdir (vfs_host dumps loads) d s
           = (Inr True, \<lparr>error = ''Error: <class 'OSError'>'',
                          fs = (fs s)\<lparr>dirs := dirs (fs s) @ [a]\<rparr>\<rparr>)\<close>
  using assms
  by (simp add: mkdir_def dir_exists_def clean_error_def andthen_def truthy_def
      vfs_chdir_def vfs_mkdir_def enoent_def Let_def)

lemma vfs_dir_exists_after:
  assumes "a = abs_path (cwd g) d"
  shows "dir_exists (vfs_host dumps loads) d \<lparr>error = x, fs = g\<lparr>dirs := dirs g @ [a]\<rparr>\<rparr>
           = (Inr (Some True), \<lparr>error = [], fs = g\<lparr>dirs := dirs g @ [a], cwd := a\<rparr>\<rparr>)"
  using assms
  by (simp add: dir_exists_def clean_error_def vfs_chdir_def is_dir_at_def Let_def)

lemma vfs_mkdir_again:
  assumes "d \<noteq> []" and "a = abs_path (cwd g) d"
  shows "mkdir (vfs_host dumps loads) d \<lparr>error = x, fs = g\<lparr>dirs := dirs g @ [a]\<rparr>\<rparr>
           = (Inr False, \<lparr>error = d @ '' already exists'',
                           fs = g\<lparr>dirs := dirs g @ [a], cwd := a\<rparr>\<rparr>)"
  using assms
  by (simp add: mkdir_def dir_exists_def clean_error_def andthen_def truthy_def
      vfs_chdir_def is_dir_at_def Let_def)

lemma vfs_mkdir_again_abs:
  assumes "d \<noteq> []" and "hd d = CHR ''/''"
  shows "mkdir (vfs_host dumps loads) d \<lparr>error = x, fs = g\<lparr>dirs := dirs g @ [d], cwd := d\<rparr>\<rparr>
           = (Inr False, \<lparr>error = d @ '' already exists'',
                           fs = g\<lparr>dirs := dirs g @ [d], cwd := d\<rparr>\<rparr>)"
  using assms
  by (simp add: mkdir_def dir_exists_def clean_error_def andthen_def truthy_def
      vfs_chdir_def is_dir_at_def Let_def abs_path_absolute)




subsection \<open>Paths and files on the filesystem model\<close>

lemma rfind_aux_notin: "c \<notin> set n \<Longrightarrow> rfind_aux c n i acc = acc"
  by (induction n arbitrary: i acc) auto

lemma rfind_aux_last:
  "c \<notin> set n \<Longrightarrow> rfind_aux c (d @ c # n) i acc = i + int (length d)"
  by (induction d arbitrary: i acc) (auto simp: rfind_aux_notin)

lemma rfind_slash:
  "CHR ''/'' \<notin> set n \<Longrightarrow> rfind (d @ CHR ''/'' # n) (CHR ''/'') = int (length d)"
  using rfind_aux_last [of "CHR ''/''" n d 0 "- 1"] by (simp add: rfind_def)

lemma path_split:
  assumes "CHR ''/'' \<notin> set n"
  shows "take (nat (rfind (d @ CHR ''/'' # n) (CHR ''/''))) (d @ CHR ''/'' # n) = d"
    and "drop (nat (rfind (d @ CHR ''/'' # n) (CHR ''/'') + 1)) (d @ CHR ''/'' # n) = n"
proof -
  have s: "nat (int (length d) + 1) = Suc (length d)" by simp
  show "take (nat (rfind (d @ CHR ''/'' # n) (CHR ''/''))) (d @ CHR ''/'' # n) = d"
    using assms by (simp add: rfind_slash)
  show "drop (nat (rfind (d @ CHR ''/'' # n) (CHR ''/'') + 1)) (d @ CHR ''/'' # n) = n"
    unfolding rfind_slash [OF assms] s by simp
qed

lemma parent_slash:
  "CHR ''/'' \<notin> set n \<Longrightarrow> parent (d @ CHR ''/'' # n) = (if d = [] then ''/'' else d)"
  unfolding parent_def Let_def using path_split(1) [of n d]
  by (auto simp: rfind_slash)

lemma base_slash: "CHR ''/'' \<notin> set n \<Longrightarrow> base (d @ CHR ''/'' # n) = n"
  unfolding base_def by (rule path_split(2))

lemma upd_same: "map_of xs k = Some v \<Longrightarrow> upd k v xs = xs"
  by (induction xs) (auto split: if_splits)

lemma upd_upd: "upd k v (upd k w xs) = upd k v xs"
  by (induction xs) auto

lemma map_of_upd: "map_of (upd k v xs) = (map_of xs)(k \<mapsto> v)"
  by (induction xs) (auto simp: fun_eq_iff)

lemma keys_upd: "set (map fst (upd k v xs)) = insert k (set (map fst xs))"
  by (induction xs) auto

lemma children_file:
  assumes "CHR ''/'' \<notin> set n" and "n \<noteq> []" and "is_file_at g (d @ CHR ''/'' # n)"
  shows "n \<in> set (children g (if d = [] then ''/'' else d))"
proof -
  let ?q = "d @ CHR ''/'' # n"
  have "?q \<in> set (dirs g @ map fst (files g))" using assms(3) by (simp add: is_file_at_def)
  moreover have "?q \<noteq> ''/''" using assms(2) by (cases d) auto
  moreover have "parent ?q = (if d = [] then ''/'' else d)" using assms(1) by (rule parent_slash)
  moreover have "base ?q = n" using assms(1) by (rule base_slash)
  ultimately have "?q \<in> set (filter (\<lambda>q. q \<noteq> ''/'' \<and> parent q = (if d = [] then ''/'' else d)
                                     \<and> base q \<noteq> []) (dirs g @ map fst (files g)))"
    using assms(2) by simp
  then have "base ?q \<in> set (children g (if d = [] then ''/'' else d))"
    unfolding children_def by (metis (no_types, lifting) image_eqI set_map)
  then show ?thesis using \<open>base ?q = n\<close> by simp
qed

text \<open>
  On the filesystem model, \<open>exists\<close> finds the regular file \<open>d/n\<close> when \<open>d\<close> is an absolute
  path of a directory, or when \<open>d\<close> is empty and the working directory is the root (the
  empty path before the last slash is looked up as the working directory).
\<close>

lemma vfs_exists_path_file:
  assumes n: "CHR ''/'' \<notin> set n" "n \<noteq> []"
    and f: "is_file_at g (d @ CHR ''/'' # n)"
    and d: "(d \<noteq> [] \<and> hd d = CHR ''/'' \<and> is_dir_at g d)
            \<or> (d = [] \<and> cwd g = ''/'' \<and> is_dir_at g ''/'')"
  shows "exists_path (vfs_host dumps loads) (d @ CHR ''/'' # n) \<lparr>error = x, fs = g\<rparr>
           = (Inr True, \<lparr>error = [], fs = g\<lparr>cwd := (if d = [] then ''/'' else d)\<rparr>\<rparr>)"
proof -
  let ?c = "if d = [] then ''/'' else d"
  let ?g = "g\<lparr>cwd := ?c\<rparr>"
  have r: "rfind (d @ CHR ''/'' # n) (CHR ''/'') \<noteq> - 1" using n(1) by (simp add: rfind_slash)
  have a1: "abs_path (cwd g) d = ?c" using d by (auto simp: abs_path_def)
  have a2: "abs_path ?c d = ?c" using d by (auto simp: abs_path_def)
  have dir: "is_dir_at g ?c" using d by auto
  have ch1: "vfs_chdir d g = Inr ?g" using a1 dir by (simp add: vfs_chdir_def Let_def)
  have ch2: "vfs_chdir d ?g = Inr ?g"
    using a2 dir by (simp add: vfs_chdir_def Let_def is_dir_at_def)
  have "children ?g ?c = children g ?c" by (simp add: children_def)
  then have mem: "n \<in> set (children ?g ?c)" using children_file [OF n f] by simp
  have ls: "vfs_listdir d ?g = Inr (children ?g ?c)"
    using a2 dir by (simp add: vfs_listdir_def Let_def is_dir_at_def)
  have de1: "dir_exists (vfs_host dumps loads) d \<lparr>error = [], fs = g\<rparr>
               = (Inr (Some True), \<lparr>error = [], fs = ?g\<rparr>)"
    using ch1 by (simp add: dir_exists_def clean_error_def)
  have de2: "dir_exists (vfs_host dumps loads) d \<lparr>error = [], fs = ?g\<rparr>
               = (Inr (Some True), \<lparr>error = [], fs = ?g\<rparr>)"
    using ch2 by (simp add: dir_exists_def clean_error_def)
  have fe: "file_exists (vfs_host dumps loads) n d \<lparr>error = [], fs = ?g\<rparr>
               = (Inr True, \<lparr>error = [], fs = ?g\<rparr>)"
    using de2 ls mem by (simp add: file_exists_def clean_error_def andthen_def truthy_def)
  show ?thesis
    unfolding exists_path_def Let_def path_split [OF n(1)]
    using r de1 fe by (simp add: clean_error_def andthen_def truthy_def)
qed

lemma write_all_vfs:
  "content g h = Some old \<Longrightarrow>
     write_all (vfs_host dumps loads) h xs g
       = (None, g\<lparr>files := upd h (old @ concat xs) (files g)\<rparr>)"
proof (induction xs arbitrary: g old)
  case Nil
  then show ?case by (simp add: content_def upd_same)
next
  case (Cons x xs)
  let ?g = "g\<lparr>files := upd h (old @ x) (files g)\<rparr>"
  have w: "vfs_write h x g = Inr ?g" using Cons.prems by (simp add: vfs_write_def)
  have c: "content ?g h = Some (old @ x)" by (simp add: content_def map_of_upd)
  show ?case using w Cons.IH [OF c] by (simp add: upd_upd)
qed

subsection \<open>update\_file\<close>

lemma content_is_file: "content g a = Some t \<Longrightarrow> is_file_at g a"
  unfolding content_def is_file_at_def by (metis map_of_eq_None_iff option.distinct(1) set_map)

lemma vfs_append_open:
  assumes "hd a = CHR ''/''" and "a \<noteq> []" and "\<not> is_dir_at g a" and "content g a = Some old"
  shows "with_open (vfs_host dumps loads) a (CHR ''a'') (\<lambda>h. write_all (vfs_host dumps loads) h xs) g
           = (None, g\<lparr>files := upd a (old @ concat xs) (files g)\<rparr>)"
    and "with_open (vfs_host dumps loads) a (CHR ''a'') (\<lambda>h g. (None, g)) g = (None, g)"
proof -
  have ap: "abs_path (cwd g) a = a" using assms(1,2) by (simp add: abs_path_def)
  have o: "vfs_open a (CHR ''a'') g = Inr (a, g)"
    using assms(3) content_is_file [OF assms(4)] ap by (simp add: vfs_open_def Let_def)
  show "with_open (vfs_host dumps loads) a (CHR ''a'') (\<lambda>h. write_all (vfs_host dumps loads) h xs) g
           = (None, g\<lparr>files := upd a (old @ concat xs) (files g)\<rparr>)"
    using o write_all_vfs [OF assms(4), of dumps loads xs] by (simp add: with_open_def)
  show "with_open (vfs_host dumps loads) a (CHR ''a'') (\<lambda>h g. (None, g)) g = (None, g)"
    using o by (simp add: with_open_def)
qed

lemma vfs_update_file_step:
  assumes n: "CHR ''/'' \<notin> set n" "n \<noteq> []"
    and d: "(d \<noteq> [] \<and> hd d = CHR ''/'' \<and> is_dir_at g d)
            \<or> (d = [] \<and> cwd g = ''/'' \<and> is_dir_at g ''/'')"
    and nm: "name = d @ CHR ''/'' # n \<or> (d = [] \<and> name = n)"
    and nd: "\<not> is_dir_at g (d @ CHR ''/'' # n)"
    and c: "content g (d @ CHR ''/'' # n) = Some old"
  shows "update_file (vfs_host dumps loads) name (PStr t) \<lparr>error = x, fs = g\<rparr>
           = (Inr True,
              \<lparr>error = [],
               fs = g\<lparr>cwd := (if d = [] then ''/'' else d),
                      files := upd (d @ CHR ''/'' # n) (old @ t) (files g)\<rparr>\<rparr>)"
proof -
  let ?H = "vfs_host dumps loads"
  let ?fn = "d @ CHR ''/'' # n"
  let ?g = "g\<lparr>cwd := (if d = [] then ''/'' else d)\<rparr>"
  have w: "with_cwd ?H name (clean_error \<lparr>error = x, fs = g\<rparr>) = ?fn"
    using nm n d by (auto simp: with_cwd_def clean_error_def)
  have e: "exists_path ?H ?fn (clean_error \<lparr>error = x, fs = g\<rparr>)
             = (Inr True, \<lparr>error = [], fs = ?g\<rparr>)"
    using vfs_exists_path_file [OF n content_is_file [OF c] d, of dumps loads "[]"]
    by (simp add: clean_error_def)
  have h: "hd ?fn = CHR ''/''" "?fn \<noteq> []" using d by (cases d; auto)+
  have nd': "\<not> is_dir_at ?g ?fn" using nd by (simp add: is_dir_at_def)
  have c': "content ?g ?fn = Some old" using c by (simp add: content_def)
  have wr: "priv_write_data ?H (PStr t) ?fn [] (CHR ''a'') \<lparr>error = [], fs = ?g\<rparr>
              = (Inr True, \<lparr>error = [], fs = ?g\<lparr>files := upd ?fn (old @ t) (files g)\<rparr>\<rparr>)"
  proof (cases "t = []")
    case True
    have "upd ?fn old (files g) = files g" using c by (simp add: content_def upd_same)
    then show ?thesis
      using True vfs_append_open(2) [OF h nd' c', of dumps loads]
      by (simp add: priv_write_data_def written_def)
  next
    case False
    then show ?thesis
      using vfs_append_open(1) [OF h nd' c', of dumps loads "[t]"]
      by (simp add: priv_write_data_def written_def)
  qed
  show ?thesis
    unfolding update_file_def priv_update_def Let_def w e
    using wr by (simp add: andthen_def write_payload_def)
qed

lemma priv_update_missing:
  assumes "exists_path E (with_cwd E name s) (clean_error s) = (Inr False, s1)"
  shows \<open>priv_update E name data s
       = (Inr False,
          s1\<lparr>error := with_cwd E name s
                 @ '' not exists or add path to filename ex; /file.txt''\<rparr>)\<close>
proof -
  have w: "with_cwd E name (clean_error s) = with_cwd E name s" by (simp add: with_cwd_def)
  show ?thesis
    unfolding priv_update_def Let_def w using assms by (simp add: andthen_def)
qed




subsection \<open>Creating and reading in the root directory\<close>

lemma readlines_aux_line:
  "CHR 0x0A \<notin> set l \<Longrightarrow>
     readlines_aux (l @ CHR 0x0A # rest) cur = (cur @ l @ [CHR 0x0A]) # readlines_aux rest []"
  by (induction l arbitrary: cur) auto

lemma readlines_lines:
  "\<forall>l \<in> set ls. CHR 0x0A \<notin> set l \<Longrightarrow>
     readlines (concat (map (\<lambda>l. l @ [CHR 0x0A]) ls)) = map (\<lambda>l. l @ [CHR 0x0A]) ls"
  unfolding readlines_def
proof (induction ls)
  case Nil
  then show ?case by simp
next
  case (Cons l ls)
  then show ?case using readlines_aux_line [of l "concat (map (\<lambda>l. l @ [CHR 0x0A]) ls)" "[]"]
    by simp
qed

lemma replace_empty_line:
  "CHR 0x0A \<notin> set l \<Longrightarrow> replace_empty [CHR 0x0A] (l @ [CHR 0x0A]) = l"
proof (induction l)
  case Nil
  show ?case by (simp add: replace_empty.simps [of _ "[CHR 0x0A]"] replace_empty.simps [of _ "[]"])
next
  case (Cons c l)
  then show ?case by (auto simp: replace_empty.simps [of _ "c # l @ [CHR 0x0A]"])
qed

lemma vfs_write_open_root:
  assumes "cwd g = ''/''" and "is_dir_at g ''/''" and "CHR ''/'' \<notin> set n" and "n \<noteq> []"
    and "\<not> is_dir_at g (CHR ''/'' # n)"
  shows "with_open (vfs_host dumps loads) n (CHR ''w'')
           (\<lambda>h. write_all (vfs_host dumps loads) h xs) g
           = (None, g\<lparr>files := upd (CHR ''/'' # n) (concat xs) (files g)\<rparr>)"
proof -
  let ?a = "CHR ''/'' # n"
  let ?g = "g\<lparr>files := upd ?a [] (files g)\<rparr>"
  have hn: "hd n \<noteq> CHR ''/''" using assms(3,4) by (cases n) auto
  have ap: "abs_path (cwd g) n = ?a" using assms(1,4) hn by (simp add: abs_path_def)
  have cr: "creatable g ?a"
    using assms(2,3,4) parent_slash [of n "[]"] base_slash [of n "[]"]
    by (simp add: creatable_def)
  have o: "vfs_open n (CHR ''w'') g = Inr (?a, ?g)"
    using ap assms(5) cr by (simp add: vfs_open_def Let_def)
  have c: "content ?g ?a = Some []" by (simp add: content_def map_of_upd)
  show ?thesis
    using o write_all_vfs [OF c, of dumps loads xs] by (simp add: with_open_def upd_upd)
qed

lemma priv_create_root:
  assumes "uos_getcwd E (fs s) = ''/''" and "n \<noteq> []"
  shows "priv_create E n [] data False s
           = (case write_payload E data n [] (CHR ''w'') (clean_error s) of
                (Inr b, s3) \<Rightarrow> (Inr True, s3)
              | (Inl e, s3) \<Rightarrow> (Inr False,
                  s3\<lparr>error := ''Error creating file '' @ n @ '' -> '' @ exn_str e\<rparr>))"
  using assms
  by (simp add: priv_create_def andthen_def endswith_slash_def split: prod.splits sum.splits)

lemma vfs_create_csv_root:
  assumes "cwd g = ''/''" and "is_dir_at g ''/''" and "CHR ''/'' \<notin> set n" and "n \<noteq> []"
    and "\<not> is_dir_at g (CHR ''/'' # n)"
  shows "create_csv (vfs_host dumps loads) n [] (Some items) False \<lparr>error = x, fs = g\<rparr>
           = (Inr True,
              \<lparr>error = [],
               fs = g\<lparr>files := upd (CHR ''/'' # n)
                        (concat (map (csv_line '';'' [CHR 0x0A]) items)) (files g)\<rparr>\<rparr>)"
  using vfs_write_open_root [OF assms, of dumps loads "map (csv_line '';'' [CHR 0x0A]) items"]
    assms(1,4)
  by (simp add: create_csv_def priv_create_root write_payload_def priv_write_csv_def
      written_def clean_error_def)

lemma vfs_create_json_root:
  assumes "cwd g = ''/''" and "is_dir_at g ''/''" and "CHR ''/'' \<notin> set n" and "n \<noteq> []"
    and "\<not> is_dir_at g (CHR ''/'' # n)" and "dumps v = Inr t"
  shows "create_json (vfs_host dumps loads) n [] v False \<lparr>error = x, fs = g\<rparr>
           = (Inr True,
              \<lparr>error = [], fs = g\<lparr>files := upd (CHR ''/'' # n) t (files g)\<rparr>\<rparr>)"
  using vfs_write_open_root [OF assms(1-5), of dumps loads "[t]"] assms(1,4,6)
  by (simp add: create_json_def priv_create_root write_payload_def priv_write_json_def
      written_def clean_error_def del: write_all.simps)

lemma vfs_read_text:
  assumes "hd a = CHR ''/''" and "a \<noteq> []" and "content g a = Some t"
  shows "read_text (vfs_host dumps loads) a g = (Inr t, g)"
proof -
  have ap: "abs_path (cwd g) a = a" using assms(1,2) by (simp add: abs_path_def)
  show ?thesis
    using ap content_is_file [OF assms(3)] assms(3)
    by (simp add: read_text_def vfs_open_def vfs_read_def Let_def)
qed

lemma vfs_priv_read_root:
  assumes "cwd g = ''/''" and "is_dir_at g ''/''" and "CHR ''/'' \<notin> set n" and "n \<noteq> []"
    and "content g (CHR ''/'' # n) = Some t"
  shows "priv_read (vfs_host dumps loads) n ftype sep nl rl \<lparr>error = x, fs = g\<rparr>
           = (case (if ftype = ''json'' then priv_read_json (vfs_host dumps loads) (CHR ''/'' # n) g
                    else if ftype = ''csv''
                    then priv_read_csv (vfs_host dumps loads) (CHR ''/'' # n) sep nl rl g
                    else priv_read_file (vfs_host dumps loads) (CHR ''/'' # n) g) of
                (Inr d, g1) \<Rightarrow> (Inr d, \<lparr>error = [], fs = g1\<rparr>)
              | (Inl e, g1) \<Rightarrow> (Inr RFalse,
                  \<lparr>error = ''can't read data from '' @ CHR ''/'' # n @ ''  -> '' @ exn_str e,
                   fs = g1\<rparr>))"
proof -
  let ?H = "vfs_host dumps loads"
  have gg: "g\<lparr>cwd := ''/''\<rparr> = g" using assms(1) by (cases g) simp
  have w: "with_cwd ?H n (clean_error \<lparr>error = x, fs = g\<rparr>) = CHR ''/'' # n"
    using assms(1,3) by (simp add: with_cwd_def clean_error_def)
  have e: "exists_path ?H (CHR ''/'' # n) (clean_error \<lparr>error = x, fs = g\<rparr>)
             = (Inr True, \<lparr>error = [], fs = g\<rparr>)"
    using vfs_exists_path_file [of n g "[]" dumps loads "[]"] assms content_is_file [OF assms(5)] gg
    by (simp add: clean_error_def)
  show ?thesis
    unfolding priv_read_def Let_def w e
    by (simp add: andthen_def split: prod.splits sum.splits)
qed

end
